theory Spec2Isabelle
  imports Main "HOL-Library.AList" "HOL-Library.Sublist"
begin

section \<open>JavaScript values\<close>

text \<open>
  Bodies, payloads and principals are untyped (\<open>any\<close>) in the gateway. They are modelled
  by the values JSON can carry, plus \<open>undefined\<close>. An object is the list of its own
  properties; a property is read with \<open>map_of\<close>, so the first binding of a key is the
  one that counts. Numbers are integers: no claim depends on a fraction.
\<close>

datatype json =
    JUndefined
  | JNull
  | JBool bool
  | JNum int
  | JStr string
  | JArr "json list"
  | JObj "(string \<times> json) list"

type_synonym obj = "(string \<times> json) list"

text \<open>Truthiness, as \<open>if (x)\<close>, \<open>!x\<close>, \<open>x || y\<close> and \<open>x && y\<close> read it.\<close>

fun truthy :: "json \<Rightarrow> bool" where
  "truthy JUndefined = False"
| "truthy JNull = False"
| "truthy (JBool b) = b"
| "truthy (JNum n) = (n \<noteq> 0)"
| "truthy (JStr s) = (s \<noteq> [])"
| "truthy (JArr xs) = True"
| "truthy (JObj fs) = True"

definition js_or :: "json \<Rightarrow> json \<Rightarrow> json" where
  "js_or a b = (if truthy a then a else b)"

text \<open>\<open>typeof x === 'object'\<close>: objects, arrays and \<open>null\<close>.\<close>

fun typeof_object :: "json \<Rightarrow> bool" where
  "typeof_object JNull = True"
| "typeof_object (JArr xs) = True"
| "typeof_object (JObj fs) = True"
| "typeof_object v = False"

text \<open>
  \<open>x.k\<close> on a value that is neither \<open>null\<close> nor \<open>undefined\<close>: the property of an
  object, \<open>undefined\<close> when it is missing or when \<open>x\<close> is a primitive or an array
  (none of the names the gateway reads is a built-in property).
\<close>

fun get_prop :: "json \<Rightarrow> string \<Rightarrow> json" where
  "get_prop (JObj fs) k = (case map_of fs k of Some v \<Rightarrow> v | None \<Rightarrow> JUndefined)"
| "get_prop v k = JUndefined"

text \<open>\<open>x.k\<close> where \<open>x\<close> may be \<open>null\<close> or \<open>undefined\<close>: \<open>None\<close> is the TypeError.\<close>

fun member_of :: "json \<Rightarrow> string \<Rightarrow> json option" where
  "member_of JUndefined k = None"
| "member_of JNull k = None"
| "member_of v k = Some (get_prop v k)"

text \<open>\<open>k in x\<close> for an \<open>x\<close> with \<open>typeof x === 'object'\<close> that is not \<open>null\<close>.\<close>

fun has_key :: "string \<Rightarrow> json \<Rightarrow> bool" where
  "has_key k (JObj fs) = (map_of fs k \<noteq> None)"
| "has_key k v = False"

text \<open>\<open>{...b, ...s}\<close>: the properties of \<open>s\<close> written over those of \<open>b\<close>.\<close>

definition spread_into :: "obj \<Rightarrow> obj \<Rightarrow> obj" where
  "spread_into b s = foldr (\<lambda>(k, v). AList.update k v) s b"

text \<open>\<open>s.includes(t)\<close> on strings.\<close>

fun str_includes :: "string \<Rightarrow> string \<Rightarrow> bool" where
  "str_includes [] t = (t = [])"
| "str_includes (c # cs) t = (prefix t (c # cs) \<or> str_includes cs t)"

section \<open>Exceptions\<close>

text \<open>
  What the gateway throws and catches. \<open>BaseException\<close> (base.exception.ts) extends the
  framework's \<open>HttpException\<close>; both carry a response payload and a status. An \<open>Error\<close>
  is what the HTTP client rejects with: an optional transport code, a message, the
  upstream's response (status and body) when there was one, and the requested URL.
\<close>

record error_obj =
  err_code :: "string option"
  err_message :: string
  err_response :: "(int \<times> json) option"
  err_url :: string

datatype exn =
    BaseException string string int "string option" "json list option"
  | HttpException json int
  | Error error_obj
  | Thrown json

text \<open>
  \<open>BaseException\<close> holds the arguments of its constructor: \<open>errorType\<close>, \<open>message\<close>,
  \<open>statusCode\<close>, \<open>errorCode\<close> and \<open>validationErrors\<close>. \<open>Thrown\<close> is any thrown value
  that is neither an \<open>HttpException\<close> nor an \<open>Error\<close>.
\<close>

abbreviation BAD_REQUEST :: int where "BAD_REQUEST \<equiv> 400"
abbreviation UNAUTHORIZED :: int where "UNAUTHORIZED \<equiv> 401"
abbreviation FORBIDDEN :: int where "FORBIDDEN \<equiv> 403"
abbreviation NOT_FOUND :: int where "NOT_FOUND \<equiv> 404"
abbreviation CONFLICT :: int where "CONFLICT \<equiv> 409"
abbreviation PAYLOAD_TOO_LARGE :: int where "PAYLOAD_TOO_LARGE \<equiv> 413"
abbreviation UNPROCESSABLE_ENTITY :: int where "UNPROCESSABLE_ENTITY \<equiv> 422"
abbreviation TOO_MANY_REQUESTS :: int where "TOO_MANY_REQUESTS \<equiv> 429"
abbreviation INTERNAL_SERVER_ERROR :: int where "INTERNAL_SERVER_ERROR \<equiv> 500"
abbreviation SERVICE_UNAVAILABLE :: int where "SERVICE_UNAVAILABLE \<equiv> 503"
abbreviation GATEWAY_TIMEOUT :: int where "GATEWAY_TIMEOUT \<equiv> 504"

text \<open>
  The payload the constructor of \<open>BaseException\<close> hands to \<open>HttpException\<close>: the
  optional fields are set only when truthy.
\<close>

definition baseResponse :: "string \<Rightarrow> string \<Rightarrow> string option \<Rightarrow> json list option \<Rightarrow> obj" where
  "baseResponse errorType message errorCode validationErrors =
     [(''error'', JStr errorType), (''message'', JStr message)]
     @ (case errorCode of
          Some c \<Rightarrow> if c \<noteq> [] then [(''errorCode'', JStr c)] else []
        | None \<Rightarrow> [])
     @ (case validationErrors of
          Some vs \<Rightarrow> [(''validationErrors'', JArr vs)]
        | None \<Rightarrow> [])"

definition ServiceUnavailableException :: "string option \<Rightarrow> exn" where
  "ServiceUnavailableException service =
     (let serviceMsg =
        (case service of
           Some s \<Rightarrow> if s \<noteq> [] then s @ '' service'' else ''service''
         | None \<Rightarrow> ''service'')
      in BaseException ''ServiceUnavailable''
           (''The '' @ serviceMsg @ '' is currently unavailable. Please try again later.'')
           SERVICE_UNAVAILABLE (Some ''ERR_SERVICE_UNAVAILABLE'') None)"

definition GatewayTimeoutException :: exn where
  "GatewayTimeoutException =
     BaseException ''GatewayTimeout''
       ''The server did not receive a timely response from an upstream server.''
       GATEWAY_TIMEOUT (Some ''ERR_GATEWAY_TIMEOUT'') None"

definition ResourceNotFoundException :: "string \<Rightarrow> string \<Rightarrow> exn" where
  "ResourceNotFoundException resourceType identifier =
     BaseException ''NotFound''
       (''The '' @ resourceType @ '' with identifier '' @ identifier @ '' could not be found.'')
       NOT_FOUND (Some ''ERR_RESOURCE_NOT_FOUND'') None"

definition FileTooLargeException :: exn where
  "FileTooLargeException =
     BaseException ''FileTooLarge'' ''File size exceeds the limit.''
       PAYLOAD_TOO_LARGE (Some ''ERR_FILE_TOO_LARGE'') None"

text \<open>
  The framework's \<open>UnauthorizedException(message)\<close>: an \<open>HttpException\<close> with status
  401 whose payload is \<open>{statusCode, message, error: 'Unauthorized'}\<close>.
\<close>

definition UnauthorizedException :: "string \<Rightarrow> exn" where
  "UnauthorizedException message =
     HttpException
       (JObj [(''statusCode'', JNum UNAUTHORIZED), (''message'', JStr message),
              (''error'', JStr ''Unauthorized'')])
       UNAUTHORIZED"

fun getStatus :: "exn \<Rightarrow> int option" where
  "getStatus (BaseException t m s c v) = Some s"
| "getStatus (HttpException r s) = Some s"
| "getStatus e = None"

section \<open>ResponseUtils.standardizeResponse\<close>

definition standardizeResponse :: "json \<Rightarrow> json" where
  "standardizeResponse data =
     (if truthy data \<and> typeof_object data \<and> has_key ''success'' data \<and> has_key ''data'' data
      then data
      else JObj [(''success'', JBool True), (''data'', data)])"

section \<open>The circuit breaker\<close>

datatype CircuitState = CLOSED | OPEN | HALF_OPEN

record CircuitOptions =
  failureThreshold :: int
  resetTimeout :: int
  halfOpenAttempts :: int

text \<open>\<open>Partial<CircuitOptions>\<close>: each option may be left out.\<close>

record PartialCircuitOptions =
  failureThreshold_opt :: "int option"
  resetTimeout_opt :: "int option"
  halfOpenAttempts_opt :: "int option"

record CircuitBreaker =
  state :: CircuitState
  failureCount :: int
  lastError :: "exn option"
  nextAttempt :: int
  halfOpenSuccesses :: int
  options :: CircuitOptions
  serviceName :: string

definition defaultOptions :: CircuitOptions where
  "defaultOptions = \<lparr>failureThreshold = 3, resetTimeout = 30000, halfOpenAttempts = 2\<rparr>"

text \<open>\<open>Object.assign(this.options, options)\<close>.\<close>

definition assignOptions :: "CircuitOptions \<Rightarrow> PartialCircuitOptions option \<Rightarrow> CircuitOptions" where
  "assignOptions base opts =
     (case opts of
        None \<Rightarrow> base
      | Some p \<Rightarrow>
          \<lparr>failureThreshold =
             (case failureThreshold_opt p of Some v \<Rightarrow> v | None \<Rightarrow> failureThreshold base),
           resetTimeout =
             (case resetTimeout_opt p of Some v \<Rightarrow> v | None \<Rightarrow> resetTimeout base),
           halfOpenAttempts =
             (case halfOpenAttempts_opt p of Some v \<Rightarrow> v | None \<Rightarrow> halfOpenAttempts base)\<rparr>)"

definition new_CircuitBreaker :: "string \<Rightarrow> PartialCircuitOptions option \<Rightarrow> CircuitBreaker" where
  "new_CircuitBreaker name opts =
     \<lparr>state = CLOSED, failureCount = 0, lastError = None, nextAttempt = 0,
      halfOpenSuccesses = 0, options = assignOptions defaultOptions opts,
      serviceName = name\<rparr>"

text \<open>\<open>trip\<close> reads the clock (\<open>Date.now()\<close>, in milliseconds): it is a parameter.\<close>

definition trip :: "int \<Rightarrow> CircuitBreaker \<Rightarrow> CircuitBreaker" where
  "trip now b = b\<lparr>state := OPEN, nextAttempt := now + resetTimeout (options b)\<rparr>"

definition reset :: "CircuitBreaker \<Rightarrow> CircuitBreaker" where
  "reset b = b\<lparr>state := CLOSED, failureCount := 0, lastError := None, nextAttempt := 0,
              halfOpenSuccesses := 0\<rparr>"

text \<open>
  \<open>checkState\<close> returns the breaker as it leaves it, and the exception when it throws.
\<close>

definition checkState :: "int \<Rightarrow> CircuitBreaker \<Rightarrow> exn option \<times> CircuitBreaker" where
  "checkState now b =
     (let b1 = (if state b = OPEN \<and> now \<ge> nextAttempt b
                then b\<lparr>state := HALF_OPEN, halfOpenSuccesses := 0\<rparr> else b)
      in if state b1 = OPEN
         then (Some (ServiceUnavailableException (Some (serviceName b1))), b1)
         else (None, b1))"

definition onSuccess :: "CircuitBreaker \<Rightarrow> CircuitBreaker" where
  "onSuccess b =
     (if state b = HALF_OPEN then
        (let b1 = b\<lparr>halfOpenSuccesses := halfOpenSuccesses b + 1\<rparr>
         in if halfOpenSuccesses b1 \<ge> halfOpenAttempts (options b1) then reset b1 else b1)
      else if state b = CLOSED then b\<lparr>failureCount := 0\<rparr>
      else b)"

definition onFailure :: "int \<Rightarrow> exn \<Rightarrow> CircuitBreaker \<Rightarrow> CircuitBreaker" where
  "onFailure now error b =
     (let b0 = b\<lparr>lastError := Some error\<rparr>
      in if state b0 = HALF_OPEN then trip now b0
         else if state b0 = CLOSED then
           (let b1 = b0\<lparr>failureCount := failureCount b0 + 1\<rparr>
            in if failureCount b1 \<ge> failureThreshold (options b1) then trip now b1 else b1)
         else b0)"

text \<open>
  \<open>execute(fn)\<close>. The wrapped call acts on the world outside the gateway (type \<open>'u\<close>:
  whatever the upstream sees) and either returns or throws. \<open>now\<close> is the clock when
  the call is admitted, \<open>now'\<close> the clock when it has settled.
\<close>

definition execute ::
  "int \<Rightarrow> int \<Rightarrow> ('u \<Rightarrow> (exn + 'a) \<times> 'u) \<Rightarrow> CircuitBreaker \<Rightarrow> 'u
     \<Rightarrow> (exn + 'a) \<times> CircuitBreaker \<times> 'u" where
  "execute now now' fn b u =
     (case checkState now b of
        (Some e, b1) \<Rightarrow> (Inl e, b1, u)
      | (None, b1) \<Rightarrow>
          (case fn u of
             (Inr result, u') \<Rightarrow> (Inr result, onSuccess b1, u')
           | (Inl error, u') \<Rightarrow> (Inl error, onFailure now' error b1, u')))"

text \<open>\<open>CircuitBreakerService\<close>: one breaker per service name, created on first use.\<close>

type_synonym circuits = "string \<rightharpoonup> CircuitBreaker"

definition getCircuit ::
  "string \<Rightarrow> PartialCircuitOptions option \<Rightarrow> circuits \<Rightarrow> CircuitBreaker \<times> circuits" where
  "getCircuit name opts cs =
     (case cs name of
        Some c \<Rightarrow> (c, cs)
      | None \<Rightarrow> (let c = new_CircuitBreaker name opts in (c, cs(name \<mapsto> c))))"

definition executeWithCircuitBreaker ::
  "int \<Rightarrow> int \<Rightarrow> string \<Rightarrow> ('u \<Rightarrow> (exn + 'a) \<times> 'u) \<Rightarrow> PartialCircuitOptions option
     \<Rightarrow> circuits \<Rightarrow> 'u \<Rightarrow> (exn + 'a) \<times> circuits \<times> 'u" where
  "executeWithCircuitBreaker now now' name fn opts cs u =
     (case getCircuit name opts cs of
        (c, cs1) \<Rightarrow>
          (case execute now now' fn c u of
             (r, c', u') \<Rightarrow> (r, cs1(name \<mapsto> c'), u')))"

section \<open>ServiceAService: the call the breaker wraps\<close>

text \<open>\<open>error.config.url.split('/').pop().split('?')[0]\<close>.\<close>

definition resourceIdOf :: "string \<Rightarrow> string" where
  "resourceIdOf url =
     takeWhile (\<lambda>c. c \<noteq> CHR ''?'') (rev (takeWhile (\<lambda>c. c \<noteq> CHR ''/'') (rev url)))"

text \<open>
  \<open>handleError\<close> never returns: the value is the exception it throws. A missing
  \<open>error.response.status\<close> is the status 0.
\<close>

definition handleError :: "error_obj \<Rightarrow> exn" where
  "handleError error =
     (if err_code error = Some ''ECONNABORTED'' \<or> err_code error = Some ''ETIMEDOUT'' \<or>
         (err_message error \<noteq> [] \<and>
            (str_includes (err_message error) ''timeout'' \<or>
             str_includes (err_message error) ''Timeout''))
      then GatewayTimeoutException
      else if err_code error = Some ''ECONNREFUSED'' \<or> err_code error = Some ''ENOTFOUND'' \<or>
         (err_message error \<noteq> [] \<and> str_includes (err_message error) ''connect'')
      then ServiceUnavailableException (Some ''Service A'')
      else
        (case err_response error of
           Some (status, data) \<Rightarrow>
             if status = 404
             then ResourceNotFoundException ''item'' (resourceIdOf (err_url error))
             else HttpException
                    (if truthy data then data
                     else JObj [(''error'', JStr ''Unknown error''),
                                (''message'', JStr ''Service A request failed'')])
                    (if status \<noteq> 0 then status else INTERNAL_SERVER_ERROR)
         | None \<Rightarrow>
             HttpException
               (JObj [(''error'', JStr ''InternalServerError''),
                      (''message'', JStr ''Service A request failed'')])
               INTERNAL_SERVER_ERROR))"

text \<open>
  What the HTTP client does with a request: it resolves with the response body, or rejects
  with an error (for a response whose status the client does not accept, the error
  carries that response).
\<close>

datatype http_outcome = Responds json | Rejects error_obj

text \<open>
  The function \<open>getItemById\<close>, \<open>getStatistics\<close> and the other methods hand to the
  breaker: one request to the upstream (counted in the state), then
  \<open>standardizeResponse\<close> or, through \<open>catchError(this.handleError)\<close>, a throw.
\<close>

definition wrappedCall :: "http_outcome \<Rightarrow> nat \<Rightarrow> (exn + json) \<times> nat" where
  "wrappedCall outcome sent =
     (case outcome of
        Responds data \<Rightarrow> (Inr (standardizeResponse data), Suc sent)
      | Rejects error \<Rightarrow> (Inl (handleError error), Suc sent))"

section \<open>RedisService\<close>

text \<open>
  The Redis client is outside the repository. It is modelled by the counters it holds,
  the expiry set on each key, and a script of faults: each command takes the next entry
  of the script and throws when it is \<open>True\<close>.
\<close>

record redis =
  store :: "string \<rightharpoonup> int"
  expiry :: "string \<rightharpoonup> int"
  faults :: "bool list"

definition next_fault :: "redis \<Rightarrow> bool \<times> redis" where
  "next_fault r = (case faults r of [] \<Rightarrow> (False, r) | f # fs \<Rightarrow> (f, r\<lparr>faults := fs\<rparr>))"

definition redis_error :: exn where
  "redis_error =
     Error \<lparr>err_code = None, err_message = ''The client is closed'',
            err_response = None, err_url = []\<rparr>"

definition incrBy :: "string \<Rightarrow> int \<Rightarrow> redis \<Rightarrow> (exn + int) \<times> redis" where
  "incrBy key increment r =
     (case next_fault r of
        (True, r1) \<Rightarrow> (Inl redis_error, r1)
      | (False, r1) \<Rightarrow>
          (let v = (case store r1 key of Some n \<Rightarrow> n | None \<Rightarrow> 0) + increment
           in (Inr v, r1\<lparr>store := (store r1)(key \<mapsto> v)\<rparr>)))"

definition expire :: "string \<Rightarrow> int \<Rightarrow> redis \<Rightarrow> (exn + unit) \<times> redis" where
  "expire key ttl r =
     (case next_fault r of
        (True, r1) \<Rightarrow> (Inl redis_error, r1)
      | (False, r1) \<Rightarrow> (Inr (), r1\<lparr>expiry := (expiry r1)(key \<mapsto> ttl)\<rparr>))"

text \<open>
  \<open>incrementByThrottler\<close>: the whole body is inside \<open>try\<close>, and the \<open>catch\<close> logs and
  returns 0, so the method never throws.
\<close>

definition incrementByThrottler :: "string \<Rightarrow> int \<Rightarrow> int option \<Rightarrow> redis \<Rightarrow> int \<times> redis" where
  "incrementByThrottler key increment ttl r =
     (case incrBy key increment r of
        (Inl e, r1) \<Rightarrow> (0, r1)
      | (Inr v, r1) \<Rightarrow>
          (case ttl of
             Some t \<Rightarrow>
               if t \<noteq> 0 \<and> v = increment
               then (case expire key t r1 of
                       (Inl e, r2) \<Rightarrow> (0, r2)
                     | (Inr u, r2) \<Rightarrow> (v, r2))
               else (v, r1)
           | None \<Rightarrow> (v, r1)))"

section \<open>ThrottlerService\<close>

record RateLimitResult =
  limited :: bool
  current :: int
  limit :: int
  remaining :: int
  resetTime :: int

text \<open>
  The service's configuration: \<open>defaultTtl\<close> and \<open>defaultLimit\<close> are what \<open>parseInt\<close>
  makes of \<open>THROTTLE_TTL\<close> and \<open>THROTTLE_LIMIT\<close> (60 when unset).
\<close>

record ThrottlerService =
  defaultTtl :: int
  defaultLimit :: int

definition limitMap :: "ThrottlerService \<Rightarrow> string \<rightharpoonup> int" where
  "limitMap svc =
     map_of
       [(''POST:user'', 5), (''PUT:user'', 10), (''POST:product'', 5), (''PUT:product'', 10),
        (''POST:file'', 10), (''PUT:file'', 15), (''POST:function'', 15),
        (''PUT:function'', 20), (''DELETE:function'', 10), (''POST:version'', 5),
        (''DELETE:version'', 5), (''POST:data'', 20), (''DELETE:data'', 10),
        (''POST:chat'', 60), (''GET'', defaultLimit svc), (''DELETE'', 20)]"

definition ttlMap :: "ThrottlerService \<Rightarrow> string \<rightharpoonup> int" where
  "ttlMap svc =
     map_of
       [(''POST:user'', defaultTtl svc), (''PUT:user'', defaultTtl svc),
        (''POST:product'', defaultTtl svc), (''PUT:product'', defaultTtl svc),
        (''POST:file'', defaultTtl svc), (''PUT:file'', defaultTtl svc),
        (''POST:function'', defaultTtl svc), (''PUT:function'', defaultTtl svc),
        (''DELETE:function'', defaultTtl svc), (''POST:version'', defaultTtl svc),
        (''DELETE:version'', defaultTtl svc), (''POST:data'', defaultTtl svc),
        (''DELETE:data'', defaultTtl svc), (''POST:sync'', defaultTtl svc * 2),
        (''POST:chat'', defaultTtl svc), (''GET'', defaultTtl svc),
        (''DELETE'', defaultTtl svc * 2)]"

text \<open>\<open>entry || fallback\<close> on a table entry, and a string read as a condition.\<close>

definition num_or :: "int option \<Rightarrow> int \<Rightarrow> int" where
  "num_or v d = (case v of Some n \<Rightarrow> if n \<noteq> 0 then n else d | None \<Rightarrow> d)"

definition str_truthy :: "string option \<Rightarrow> bool" where
  "str_truthy v = (case v of Some s \<Rightarrow> s \<noteq> [] | None \<Rightarrow> False)"

text \<open>Decimal rendering of numbers, as template strings and \<open>toString()\<close> produce it.\<close>

fun show_nat :: "nat \<Rightarrow> string" where
  "show_nat n = (if n < 10 then [char_of (48 + n)] else show_nat (n div 10) @ [char_of (48 + n mod 10)])"

declare show_nat.simps [simp del]

definition show_int :: "int \<Rightarrow> string" where
  "show_int i = (if i < 0 then CHR ''-'' # show_nat (nat (- i)) else show_nat (nat i))"

text \<open>\<open>Math.floor(now / d)\<close> rendered; a zero divisor gives no integer.\<close>

definition show_floor_quot :: "int \<Rightarrow> int \<Rightarrow> string" where
  "show_floor_quot n d =
     (if d = 0 then (if n = 0 then ''NaN'' else if n > 0 then ''Infinity'' else ''-Infinity'')
      else show_int (n div d))"

definition generateKey ::
  "ThrottlerService \<Rightarrow> int \<Rightarrow> string \<Rightarrow> string \<Rightarrow> string option \<Rightarrow> int \<Rightarrow> string" where
  "generateKey svc now identifier method resource ttl =
     (let resourcePart = (case resource of
                            Some res \<Rightarrow> if res \<noteq> [] then CHR '':'' # res else []
                          | None \<Rightarrow> []);
          period = (if ttl \<noteq> 0 then show_floor_quot now (ttl * 1000)
                    else show_floor_quot now (defaultTtl svc * 1000))
      in ''api-gateway:'' @ identifier @ '':'' @ method @ resourcePart @ '':'' @ period)"

text \<open>\<open>Math.ceil(ms / 1000)\<close>.\<close>

definition ceil_seconds :: "int \<Rightarrow> int" where
  "ceil_seconds ms = - ((- ms) div 1000)"

text \<open>
  The limit and the window \<open>checkRateLimit\<close> settles on before it counts: the entry for
  \<open>method:resource\<close> when there is a resource and the entry is truthy, else the entry
  for the method, else the defaults.
\<close>

definition methodRule :: "ThrottlerService \<Rightarrow> string \<Rightarrow> int \<times> int" where
  "methodRule svc method =
     (case limitMap svc method of
        Some l \<Rightarrow>
          if l \<noteq> 0 then (l, num_or (ttlMap svc method) (defaultTtl svc))
          else (defaultLimit svc, defaultTtl svc)
      | None \<Rightarrow> (defaultLimit svc, defaultTtl svc))"

definition resolveRule :: "ThrottlerService \<Rightarrow> string \<Rightarrow> string option \<Rightarrow> int \<times> int" where
  "resolveRule svc method resource =
     (case resource of
        Some res \<Rightarrow>
          if res \<noteq> [] then
            (case limitMap svc (method @ '':'' @ res) of
               Some l \<Rightarrow>
                 if l \<noteq> 0
                 then (l, num_or (ttlMap svc (method @ '':'' @ res)) (defaultTtl svc))
                 else methodRule svc method
             | None \<Rightarrow> methodRule svc method)
          else methodRule svc method
      | None \<Rightarrow> methodRule svc method)"

text \<open>
  The \<open>try\<close> block of \<open>checkRateLimit\<close>. \<open>now\<close> is the clock when the key is built,
  \<open>now'\<close> the clock after the counter has answered.
\<close>

definition checkRateLimit_try ::
  "ThrottlerService \<Rightarrow> int \<Rightarrow> int \<Rightarrow> int \<Rightarrow> int \<Rightarrow> string \<Rightarrow> string \<Rightarrow> string option \<Rightarrow> redis
     \<Rightarrow> (exn + RateLimitResult) \<times> redis" where
  "checkRateLimit_try svc now now' lim ttl key method resource r =
     (let redisKey = generateKey svc now key method resource ttl in
      case incrementByThrottler redisKey 1 (Some ttl) r of
        (cur, r1) \<Rightarrow>
          (let resetT = ceil_seconds now' + ttl;
               rem = max 0 (lim - cur)
           in (Inr \<lparr>limited = cur > lim, current = cur, limit = lim,
                     remaining = rem, resetTime = resetT\<rparr>, r1)))"

definition checkRateLimit ::
  "ThrottlerService \<Rightarrow> int \<Rightarrow> int \<Rightarrow> string \<Rightarrow> string \<Rightarrow> string option \<Rightarrow> redis
     \<Rightarrow> RateLimitResult \<times> redis" where
  "checkRateLimit svc now now' key method resource r =
     (case resolveRule svc method resource of
        (lim, ttl) \<Rightarrow>
          (case checkRateLimit_try svc now now' lim ttl key method resource r of
             (Inr result, r1) \<Rightarrow> (result, r1)
           | (Inl error, r1) \<Rightarrow>
               (\<lparr>limited = False, current = 0, limit = lim, remaining = lim,
                 resetTime = ceil_seconds now' + ttl\<rparr>, r1)))"

section \<open>ThrottlerGuard\<close>

text \<open>
  What the guard reads: the route's metadata, the request, the authenticated user's
  tenant, and the environment flag. \<open>identifier\<close> is the client identifier the guard
  derives from the API key, the user id and the address; it only names the counter.
\<close>

record throttle_request =
  isPublic :: bool
  skipThrottle :: bool
  path :: string
  httpMethod :: string
  resource :: "string option"
  ident :: string
  tenantName :: "string option"
  tenantId :: "string option"
  enableTenantRateLimits :: bool

definition isResourceIntensiveOperation :: "string \<Rightarrow> string option \<Rightarrow> bool" where
  "isResourceIntensiveOperation m res =
     (case res of
        Some rs \<Rightarrow>
          rs \<noteq> [] \<and>
          List.member
            [''POST:user'', ''POST:product'', ''POST:file'', ''POST:sync'', ''POST:data'',
             ''DELETE:data'']
            (m @ '':'' @ rs)
      | None \<Rightarrow> False)"

definition tooManyRequests :: "string \<Rightarrow> exn" where
  "tooManyRequests message =
     HttpException
       (JObj [(''statusCode'', JNum TOO_MANY_REQUESTS), (''message'', JStr message),
              (''error'', JStr ''Too Many Requests'')])
       TOO_MANY_REQUESTS"

text \<open>The regular check (the last part of \<open>canActivate\<close>), with the headers it sets.\<close>

definition regularCheck ::
  "ThrottlerService \<Rightarrow> int \<Rightarrow> int \<Rightarrow> throttle_request \<Rightarrow> redis
     \<Rightarrow> (exn + bool) \<times> (string \<times> string) list \<times> redis" where
  "regularCheck svc now now' req r =
     (case checkRateLimit svc now now' (ident req) (httpMethod req) (resource req) r of
        (res, r1) \<Rightarrow>
          (let headers = [(''X-RateLimit-Limit'', show_int (limit res)),
                          (''X-RateLimit-Remaining'', show_int (remaining res)),
                          (''X-RateLimit-Reset'', show_int (resetTime res))]
           in if limited res
              then (Inl (tooManyRequests ''Too many requests, please try again later.''),
                    headers, r1)
              else (Inr True, headers, r1)))"

text \<open>
  \<open>tenant:${tenantName}:${tenantId}\<close>, when the user has both (\<open>tenantName && tenantId\<close>).
\<close>

definition tenantKey :: "throttle_request \<Rightarrow> string option" where
  "tenantKey req =
     (case tenantName req of
        Some tn \<Rightarrow>
          (case tenantId req of
             Some tid \<Rightarrow>
               if tn \<noteq> [] \<and> tid \<noteq> [] then Some (''tenant:'' @ tn @ '':'' @ tid) else None
           | None \<Rightarrow> None)
      | None \<Rightarrow> None)"

text \<open>
  \<open>canActivate\<close>: the result (\<open>true\<close> or the exception thrown), the response headers
  set, and the counters afterwards.
\<close>

definition canActivate ::
  "ThrottlerService \<Rightarrow> int \<Rightarrow> int \<Rightarrow> throttle_request \<Rightarrow> redis
     \<Rightarrow> (exn + bool) \<times> (string \<times> string) list \<times> redis" where
  "canActivate svc now now' req r =
     (if isPublic req then (Inr True, [], r)
      else if skipThrottle req then (Inr True, [], r)
      else if path req = ''/health'' \<or> path req = ''/api/health'' then (Inr True, [], r)
      else
        (case (if enableTenantRateLimits req \<and>
                  isResourceIntensiveOperation (httpMethod req) (resource req)
               then tenantKey req else None) of
           Some key \<Rightarrow>
             (case checkRateLimit svc now now' key (httpMethod req) (resource req) r of
                (tenantLimit, r1) \<Rightarrow>
                  if limited tenantLimit
                  then (Inl (tooManyRequests
                               ''Tenant rate limit exceeded, please try again later.''),
                        [(''X-Tenant-RateLimit-Limit'', show_int (limit tenantLimit)),
                         (''X-Tenant-RateLimit-Remaining'', show_int (remaining tenantLimit)),
                         (''X-Tenant-RateLimit-Reset'', show_int (resetTime tenantLimit))],
                        r1)
                  else regularCheck svc now now' req r1)
         | None \<Rightarrow> regularCheck svc now now' req r))"

section \<open>AllExceptionsFilter\<close>

definition getErrorTypeFromStatus :: "int \<Rightarrow> string" where
  "getErrorTypeFromStatus status =
     (if status = BAD_REQUEST then ''BadRequest''
      else if status = UNAUTHORIZED then ''Unauthorized''
      else if status = FORBIDDEN then ''Forbidden''
      else if status = NOT_FOUND then ''NotFound''
      else if status = CONFLICT then ''Conflict''
      else if status = UNPROCESSABLE_ENTITY then ''ValidationError''
      else if status = TOO_MANY_REQUESTS then ''TooManyRequests''
      else if status = GATEWAY_TIMEOUT then ''GatewayTimeout''
      else if status = PAYLOAD_TOO_LARGE then ''PayloadTooLarge''
      else if status = SERVICE_UNAVAILABLE then ''ServiceUnavailable''
      else ''InternalServerError'')"

definition getDefaultMessageForStatus :: "int \<Rightarrow> string" where
  "getDefaultMessageForStatus status =
     (if status = BAD_REQUEST
      then ''The request was malformed or contained invalid parameters.''
      else if status = UNAUTHORIZED
      then ''Authentication is required to access this resource.''
      else if status = FORBIDDEN
      then ''You do not have permission to access this resource.''
      else if status = NOT_FOUND then ''The requested resource could not be found.''
      else if status = CONFLICT
      then ''The request could not be completed due to a conflict with the current state of the resource.''
      else if status = UNPROCESSABLE_ENTITY
      then ''The request was well-formed but contained invalid fields.''
      else if status = TOO_MANY_REQUESTS
      then ''Too many requests have been sent in a given amount of time.''
      else if status = GATEWAY_TIMEOUT
      then ''The server did not receive a timely response from an upstream server.''
      else if status = SERVICE_UNAVAILABLE
      then ''The service is currently unavailable. Please try again later.''
      else if status = PAYLOAD_TOO_LARGE then ''File size exceeds the limit.''
      else ''An unexpected error occurred while processing the request.'')"

text \<open>\<open>if (v === 'Bad Request') v = 'BadRequest'\<close>.\<close>

definition fixBadRequest :: "json \<Rightarrow> json" where
  "fixBadRequest v = (if v = JStr ''Bad Request'' then JStr ''BadRequest'' else v)"

text \<open>\<open>{...o, timestamp: ..., path: request.url}\<close>.\<close>

definition stamp :: "string \<Rightarrow> string \<Rightarrow> obj \<Rightarrow> obj" where
  "stamp ts url ob = AList.update ''path'' (JStr url) (AList.update ''timestamp'' (JStr ts) ob)"

text \<open>
  The first part of \<open>catch\<close>: the status and the error response chosen by the kind of
  exception. \<open>None\<close>: the filter itself fails, reading a property of \<open>null\<close>.
\<close>

definition selectResponse :: "exn \<Rightarrow> string \<Rightarrow> string \<Rightarrow> (int \<times> obj) option" where
  "selectResponse exception ts url =
     (case exception of
        BaseException errorType message status errorCode validationErrors \<Rightarrow>
          Some (status, stamp ts url (baseResponse errorType message errorCode validationErrors))
      | HttpException exceptionResponse status \<Rightarrow>
          if typeof_object exceptionResponse then
            (if exceptionResponse = JNull then None
             else
               (let errorType = fixBadRequest
                      (js_or (get_prop exceptionResponse ''error'')
                             (JStr (getErrorTypeFromStatus status)));
                    r0 = [(''error'', errorType),
                          (''message'', js_or (get_prop exceptionResponse ''message'')
                                           (JStr (getDefaultMessageForStatus status))),
                          (''timestamp'', JStr ts), (''path'', JStr url)];
                    r1 = (if truthy (get_prop exceptionResponse ''validationErrors'')
                          then AList.update ''validationErrors''
                                 (get_prop exceptionResponse ''validationErrors'') r0
                          else r0);
                    r2 = (if truthy (get_prop exceptionResponse ''errorCode'')
                          then AList.update ''errorCode''
                                 (get_prop exceptionResponse ''errorCode'') r1
                          else r1)
                in Some (status, r2)))
          else
            Some (status,
                  [(''error'', JStr (getErrorTypeFromStatus status)),
                   (''message'', js_or exceptionResponse
                                    (JStr (getDefaultMessageForStatus status))),
                   (''timestamp'', JStr ts), (''path'', JStr url)])
      | Error err \<Rightarrow>
          if err_code err = Some ''ETIMEDOUT'' \<or> err_code err = Some ''ECONNABORTED'' \<or>
             (err_message err \<noteq> [] \<and>
                (str_includes (err_message err) ''timeout'' \<or>
                 str_includes (err_message err) ''Timeout''))
          then Some (GATEWAY_TIMEOUT,
                  [(''error'', JStr ''GatewayTimeout''),
                   (''message'',
                    JStr ''The server did not receive a timely response from an upstream server.''),
                   (''errorCode'', JStr ''ERR_GATEWAY_TIMEOUT''),
                   (''timestamp'', JStr ts), (''path'', JStr url)])
          else if err_code err = Some ''ECONNREFUSED'' \<or> err_code err = Some ''ENOTFOUND'' \<or>
             (err_message err \<noteq> [] \<and> str_includes (err_message err) ''connect'')
          then Some (SERVICE_UNAVAILABLE,
                  [(''error'', JStr ''ServiceUnavailable''),
                   (''message'',
                    JStr ''The service is currently unavailable. Please try again later.''),
                   (''errorCode'', JStr ''ERR_SERVICE_UNAVAILABLE''),
                   (''timestamp'', JStr ts), (''path'', JStr url)])
          else
            (case err_response err of
               Some (st, data) \<Rightarrow>
                 if truthy data then
                   (let status = (if st \<noteq> 0 then st else INTERNAL_SERVER_ERROR) in
                    case data of
                      JObj fs \<Rightarrow>
                        if truthy (get_prop data ''error'') \<and> truthy (get_prop data ''message'')
                        then Some (status,
                               stamp ts url
                                 (if get_prop data ''error'' = JStr ''Bad Request''
                                  then AList.update ''error'' (JStr ''BadRequest'') fs else fs))
                        else Some (status,
                               [(''error'', JStr (getErrorTypeFromStatus status)),
                                (''message'',
                                 js_or (get_prop data ''message'')
                                   (js_or (JStr (err_message err))
                                      (JStr (getDefaultMessageForStatus status)))),
                                (''timestamp'', JStr ts), (''path'', JStr url)])
                    | _ \<Rightarrow>
                        Some (status,
                          [(''error'', JStr (getErrorTypeFromStatus status)),
                           (''message'',
                            js_or (JStr (err_message err))
                              (JStr (getDefaultMessageForStatus status))),
                           (''timestamp'', JStr ts), (''path'', JStr url)]))
                 else Some (INTERNAL_SERVER_ERROR,
                        [(''error'', JStr ''UnexpectedError''),
                         (''message'', JStr (err_message err)),
                         (''timestamp'', JStr ts), (''path'', JStr url)])
             | None \<Rightarrow>
                 Some (INTERNAL_SERVER_ERROR,
                   [(''error'', JStr ''UnexpectedError''),
                    (''message'', JStr (err_message err)),
                    (''timestamp'', JStr ts), (''path'', JStr url)]))
      | Thrown v \<Rightarrow>
          Some (INTERNAL_SERVER_ERROR,
            [(''error'', JStr ''InternalServerError''),
             (''message'', JStr ''An unexpected error occurred.''),
             (''timestamp'', JStr ts), (''path'', JStr url)]))"

text \<open>
  \<open>catch\<close>: the status and the body written to the client. \<open>ts\<close> is the timestamp,
  \<open>url\<close> the request's URL, \<open>requestId\<close> its \<open>x-request-id\<close> header.
\<close>

definition catch_filter ::
  "exn \<Rightarrow> string \<Rightarrow> string \<Rightarrow> string option \<Rightarrow> (int \<times> obj) option" where
  "catch_filter exception ts url requestId =
     (case selectResponse exception ts url of
        None \<Rightarrow> None
      | Some (status, e0) \<Rightarrow>
          (let e1 = (if map_of e0 ''error'' = Some (JStr ''Bad Request'')
                     then AList.update ''error'' (JStr ''BadRequest'') e0 else e0);
               e2 = (if status = PAYLOAD_TOO_LARGE
                     then [(''error'', JStr ''PayloadTooLarge''),
                           (''message'', JStr ''File size exceeds the limit.''),
                           (''errorCode'', JStr ''ERR_PAYLOAD_TOO_LARGE''),
                           (''timestamp'', JStr ts), (''path'', JStr url)]
                     else e1);
               e3 = (case requestId of
                       Some rid \<Rightarrow>
                         if rid \<noteq> [] then AList.update ''requestId'' (JStr rid) e2 else e2
                     | None \<Rightarrow> e2)
           in Some (status, e3)))"

text \<open>
  The kinds \<open>getErrorTypeFromStatus\<close> can return, and the kinds the filter writes by
  itself: those and \<open>UnexpectedError\<close>.
\<close>

definition errorKinds :: "string list" where
  "errorKinds =
     [''BadRequest'', ''Unauthorized'', ''Forbidden'', ''NotFound'', ''Conflict'',
      ''ValidationError'', ''TooManyRequests'', ''PayloadTooLarge'', ''GatewayTimeout'',
      ''ServiceUnavailable'', ''InternalServerError'']"

definition filterKinds :: "json set" where
  "filterKinds = JStr ` (set errorKinds \<union> {''UnexpectedError''})"

text \<open>
  The error kind an exception brings along: the \<open>errorType\<close> of a \<open>BaseException\<close>,
  the \<open>error\<close> field of an \<open>HttpException\<close>'s payload or of the upstream body an
  \<open>Error\<close> carries.
\<close>

fun ownKind :: "exn \<Rightarrow> json" where
  "ownKind (BaseException et m s c v) = JStr et"
| "ownKind (HttpException p s) = get_prop p ''error''"
| "ownKind (Error e) =
     (case err_response e of Some (s, d) \<Rightarrow> get_prop d ''error'' | None \<Rightarrow> JUndefined)"
| "ownKind (Thrown v) = JUndefined"

fun isBase :: "exn \<Rightarrow> bool" where
  "isBase (BaseException et m s c v) = True"
| "isBase x = False"

section \<open>AuthenticationProvider.validateToken and JwtAuthGuard\<close>

text \<open>
  \<open>validateToken\<close> asks the identity provider and returns the body of its answer with
  \<open>roles\<close> defaulted to \<open>[]\<close>; whatever goes wrong inside (the request rejected, a
  body on which \<open>roles\<close> cannot be read or set) is reported as
  \<open>UnauthorizedException('Invalid token')\<close>. An array body is returned as it is: the
  model keeps no named property on an array.
\<close>

definition validateToken :: "http_outcome \<Rightarrow> exn + json" where
  "validateToken outcome =
     (case outcome of
        Responds userData \<Rightarrow>
          (case userData of
             JObj fs \<Rightarrow>
               Inr (JObj (AList.update ''roles'' (js_or (get_prop userData ''roles'') (JArr [])) fs))
           | JArr xs \<Rightarrow> Inr (JArr xs)
           | _ \<Rightarrow> Inl (UnauthorizedException ''Invalid token''))
      | Rejects error \<Rightarrow> Inl (UnauthorizedException ''Invalid token''))"

text \<open>
  What the guard reads of the request: the route's \<open>public\<close> flag, the path,
  \<open>request.user\<close> (\<open>undefined\<close> when no guard has set it), the \<open>authorization\<close> and
  \<open>tenantid\<close> headers, and the places a tenant name may come from.
\<close>

record jwt_request =
  route_public :: bool
  req_path :: string
  req_user :: json
  authorization :: "string option"
  tenantid :: "string option"
  params_tenantName :: json
  body_tenantName :: json
  query_tenantName :: json

text \<open>
  \<open>userAccess.find(access => access.tenantId === tenantId)\<close>: the first entry whose
  \<open>tenantId\<close> is the requested string. The outer \<open>None\<close> is the TypeError of reading
  \<open>tenantId\<close> on a \<open>null\<close> or \<open>undefined\<close> entry met before a match.
\<close>

fun find_access :: "json list \<Rightarrow> string \<Rightarrow> json option option" where
  "find_access [] t = Some None"
| "find_access (a # as) t =
     (case member_of a ''tenantId'' of
        None \<Rightarrow> None
      | Some v \<Rightarrow> if v = JStr t then Some (Some a) else find_access as t)"

text \<open>
  The \<open>try\<close> block of the guard, after the token has been validated: the user it puts on
  the request, or the exception thrown inside the block.
\<close>

definition authenticate :: "jwt_request \<Rightarrow> string \<Rightarrow> json \<Rightarrow> exn + json" where
  "authenticate request tenant userData =
     (case get_prop userData ''userAccess'' of
        JArr userAccess \<Rightarrow>
          (case find_access userAccess tenant of
             None \<Rightarrow>
               Inl (Error \<lparr>err_code = None,
                           err_message = ''Cannot read properties of null (reading tenantId)'',
                           err_response = None, err_url = []\<rparr>)
           | Some None \<Rightarrow> Inl (UnauthorizedException (''Access denied for tenant: '' @ tenant))
           | Some (Some tenantAccess) \<Rightarrow>
               (let roles = (if get_prop tenantAccess ''type'' = JStr ''ADMIN''
                             then JArr [JStr ''admin''] else JArr [JStr ''user'']);
                    tenantName =
                      js_or (get_prop tenantAccess ''tenantName'')
                        (js_or (params_tenantName request)
                           (js_or (body_tenantName request)
                              (js_or (query_tenantName request)
                                 (get_prop userData ''tenantName''))));
                    userData' = (case userData of
                                   JObj fs \<Rightarrow> AList.update ''roles'' roles fs
                                 | _ \<Rightarrow> [])
                in Inr (JObj (spread_into
                        [(''id'', js_or (get_prop userData ''userId'') (JStr ''unknown'')),
                         (''tenantId'', JStr tenant),
                         (''tenantName'', js_or tenantName (JStr ''unknown'')),
                         (''roles'', roles)]
                        userData'))))
      | _ \<Rightarrow> Inl (UnauthorizedException ''Access denied''))"

text \<open>
  \<open>JwtAuthGuard.canActivate\<close>: \<open>true\<close> or the exception thrown, and \<open>request.user\<close>
  afterwards. \<open>outcome\<close> is what the identity provider does when asked.
\<close>

definition jwt_canActivate :: "jwt_request \<Rightarrow> http_outcome \<Rightarrow> (exn + bool) \<times> json" where
  "jwt_canActivate request outcome =
     (if route_public request then (Inr True, req_user request)
      else if req_path request = ''/health'' \<or> req_path request = ''/api/health''
      then (Inr True, req_user request)
      else if truthy (req_user request) \<and> truthy (get_prop (req_user request) ''roles'')
      then (Inr True, req_user request)
      else if \<not> str_truthy (authorization request)
      then (Inl (UnauthorizedException ''Missing authorization token''), req_user request)
      else
        (case tenantid request of
           None \<Rightarrow> (Inl (UnauthorizedException ''Missing tenant ID header''), req_user request)
         | Some tenant \<Rightarrow>
             if tenant = []
             then (Inl (UnauthorizedException ''Missing tenant ID header''), req_user request)
             else
               (case validateToken outcome of
                  Inl error \<Rightarrow> (Inl (UnauthorizedException ''Invalid token''), req_user request)
                | Inr userData \<Rightarrow>
                    (case authenticate request tenant userData of
                       Inl error \<Rightarrow>
                         (Inl (UnauthorizedException ''Invalid token''), req_user request)
                     | Inr user \<Rightarrow> (Inr True, user)))))"

section \<open>ServiceCController.uploadFile: the file pipe\<close>

record uploaded_file =
  originalname :: string
  mimetype :: string
  file_size :: nat

text \<open>
  \<open>ParseFilePipe\<close>, \<open>MaxFileSizeValidator\<close> and \<open>FileTypeValidator\<close> are classes of the
  framework, configured by the controller. The pipe throws what \<open>exceptionFactory\<close>
  returns when no file was uploaded or when a validator refuses the file, and passes
  the file on otherwise. \<open>MaxFileSizeValidator\<close> accepts a file whose size is less than
  \<open>maxSize\<close>; \<open>FileTypeValidator\<close> accepts a file whose mimetype matches the pattern.
\<close>

definition ParseFilePipe ::
  "(uploaded_file \<Rightarrow> bool) list \<Rightarrow> exn \<Rightarrow> uploaded_file option \<Rightarrow> exn + uploaded_file" where
  "ParseFilePipe validators exceptionFactory value =
     (case value of
        None \<Rightarrow> Inl exceptionFactory
      | Some file \<Rightarrow>
          if list_all (\<lambda>isValid. isValid file) validators then Inr file
          else Inl exceptionFactory)"

definition MaxFileSizeValidator :: "nat \<Rightarrow> uploaded_file \<Rightarrow> bool" where
  "MaxFileSizeValidator m file = (file_size file < m)"

text \<open>
  The pattern of the source, \<open>/(jpg|jpeg|png|gif|pdf|doc|docx|xls|xlsx|txt|csv)$/i\<close>:
  the string ends in one of the alternatives, whatever the case of its letters.
\<close>

definition allowedTypes :: "string list" where
  "allowedTypes =
     [''jpg'', ''jpeg'', ''png'', ''gif'', ''pdf'', ''doc'', ''docx'', ''xls'', ''xlsx'',
      ''txt'', ''csv'']"

definition lower :: "char \<Rightarrow> char" where
  "lower c =
     (case map_of (zip ''ABCDEFGHIJKLMNOPQRSTUVWXYZ'' ''abcdefghijklmnopqrstuvwxyz'') c of
        Some l \<Rightarrow> l
      | None \<Rightarrow> c)"

definition matchesFileType :: "string list \<Rightarrow> string \<Rightarrow> bool" where
  "matchesFileType types str =
     list_ex (\<lambda>t. prefix (rev t) (rev (map lower str))) types"

definition FileTypeValidator :: "string list \<Rightarrow> uploaded_file \<Rightarrow> bool" where
  "FileTypeValidator types file = matchesFileType types (mimetype file)"

definition maxSize :: nat where
  "maxSize = 10 * 1024 * 1024"

text \<open>The pipe of \<open>uploadFile\<close>, with the options and the exception of the source.\<close>

definition uploadFile_pipe :: "uploaded_file option \<Rightarrow> exn + uploaded_file" where
  "uploadFile_pipe value =
     ParseFilePipe [MaxFileSizeValidator maxSize, FileTypeValidator allowedTypes]
       FileTooLargeException value"

section \<open>Properties\<close>

subsection \<open>Circuit breaker transitions\<close>

text \<open>
  C4. In the Closed state a success sets the failure count to 0 and a failure adds one to
  it, and the breaker is Open afterwards exactly when the new count has reached
  \<open>failureThreshold\<close> (otherwise it stays Closed). In the HalfOpen state a success is
  counted, and the breaker is Closed afterwards exactly when the counted successes have
  reached \<open>halfOpenAttempts\<close> (otherwise it stays HalfOpen); any failure in HalfOpen
  makes it Open. A new breaker is Closed with count 0 and the defaults 3 and 2.
\<close>

theorem breaker_transitions:
  "(state b = CLOSED \<longrightarrow>
      state (onSuccess b) = CLOSED \<and> failureCount (onSuccess b) = 0 \<and>
      failureCount (onFailure t e b) = failureCount b + 1 \<and>
      (state (onFailure t e b) = OPEN
         \<longleftrightarrow> failureCount b + 1 \<ge> failureThreshold (options b)) \<and>
      (state (onFailure t e b) = CLOSED
         \<longleftrightarrow> failureCount b + 1 < failureThreshold (options b))) \<and>
   (state b = HALF_OPEN \<longrightarrow>
      (state (onSuccess b) = CLOSED
         \<longleftrightarrow> halfOpenSuccesses b + 1 \<ge> halfOpenAttempts (options b)) \<and>
      (halfOpenSuccesses b + 1 < halfOpenAttempts (options b) \<longrightarrow>
         state (onSuccess b) = HALF_OPEN \<and>
         halfOpenSuccesses (onSuccess b) = halfOpenSuccesses b + 1) \<and>
      state (onFailure t e b) = OPEN) \<and>
   state (new_CircuitBreaker name None) = CLOSED \<and>
   failureCount (new_CircuitBreaker name None) = 0 \<and>
   failureThreshold (options (new_CircuitBreaker name None)) = 3 \<and>
   halfOpenAttempts (options (new_CircuitBreaker name None)) = 2"
  by (auto simp: onSuccess_def onFailure_def trip_def reset_def Let_def
      new_CircuitBreaker_def assignOptions_def defaultOptions_def)

theorem breaker_transitions_witness:
  "state (onFailure 1000 GatewayTimeoutException
            ((new_CircuitBreaker ''service-a'' None)\<lparr>failureCount := 2\<rparr>)) = OPEN \<and>
   state (onFailure 1000 GatewayTimeoutException
            ((new_CircuitBreaker ''service-a'' None)\<lparr>failureCount := 1\<rparr>)) = CLOSED \<and>
   failureCount (onSuccess ((new_CircuitBreaker ''service-a'' None)\<lparr>failureCount := 2\<rparr>)) = 0 \<and>
   state (onSuccess ((new_CircuitBreaker ''service-a'' None)
            \<lparr>state := HALF_OPEN, halfOpenSuccesses := 1\<rparr>)) = CLOSED \<and>
   state (onSuccess ((new_CircuitBreaker ''service-a'' None)
            \<lparr>state := HALF_OPEN, halfOpenSuccesses := 0\<rparr>)) = HALF_OPEN \<and>
   state (onFailure 1000 GatewayTimeoutException
            ((new_CircuitBreaker ''service-a'' None)\<lparr>state := HALF_OPEN\<rparr>)) = OPEN"
  using
    breaker_transitions [of "(new_CircuitBreaker ''service-a'' None)\<lparr>failureCount := 2\<rparr>"
      1000 GatewayTimeoutException "''service-a''"]
    breaker_transitions [of "(new_CircuitBreaker ''service-a'' None)\<lparr>failureCount := 1\<rparr>"
      1000 GatewayTimeoutException "''service-a''"]
    breaker_transitions [of "(new_CircuitBreaker ''service-a'' None)
      \<lparr>state := HALF_OPEN, halfOpenSuccesses := 1\<rparr>" 1000 GatewayTimeoutException "''service-a''"]
    breaker_transitions [of "(new_CircuitBreaker ''service-a'' None)
      \<lparr>state := HALF_OPEN, halfOpenSuccesses := 0\<rparr>" 1000 GatewayTimeoutException "''service-a''"]
  by (simp add: new_CircuitBreaker_def assignOptions_def defaultOptions_def)

subsection \<open>The open breaker\<close>

text \<open>
  C5. For a breaker whose state is Open: when the clock has reached \<open>nextAttempt\<close>,
  \<open>checkState\<close> first makes it HalfOpen (with no counted success) and the call is
  admitted: the wrapped function runs against that HalfOpen breaker. Otherwise
  \<open>execute\<close> throws \<open>ServiceUnavailableException\<close> (status 503, which the filter answers
  with kind ServiceUnavailable and code ERR_SERVICE_UNAVAILABLE), the breaker is left as
  it was and, whatever the wrapped function is, the world it acts on is untouched: it has
  not been invoked.
\<close>

theorem open_breaker_gate:
  "state b = OPEN \<longrightarrow>
     (now \<ge> nextAttempt b \<longrightarrow>
        checkState now b = (None, b\<lparr>state := HALF_OPEN, halfOpenSuccesses := 0\<rparr>) \<and>
        execute now now' fn b u =
          (case fn u of
             (Inr result, u') \<Rightarrow>
               (Inr result, onSuccess (b\<lparr>state := HALF_OPEN, halfOpenSuccesses := 0\<rparr>), u')
           | (Inl error, u') \<Rightarrow>
               (Inl error,
                onFailure now' error (b\<lparr>state := HALF_OPEN, halfOpenSuccesses := 0\<rparr>), u'))) \<and>
     (now < nextAttempt b \<longrightarrow>
        execute now now' fn b u = (Inl (ServiceUnavailableException (Some (serviceName b))), b, u) \<and>
        getStatus (ServiceUnavailableException (Some (serviceName b))) = Some SERVICE_UNAVAILABLE \<and>
        (case catch_filter (ServiceUnavailableException (Some (serviceName b))) ts url rid of
           Some (status, body) \<Rightarrow>
             status = 503 \<and> map_of body ''error'' = Some (JStr ''ServiceUnavailable'') \<and>
             map_of body ''errorCode'' = Some (JStr ''ERR_SERVICE_UNAVAILABLE'')
         | None \<Rightarrow> False))"
  by (auto simp: execute_def checkState_def Let_def ServiceUnavailableException_def
      catch_filter_def selectResponse_def stamp_def baseResponse_def update_conv'
      split: option.splits prod.splits sum.splits)

theorem open_breaker_gate_witness:
  "execute 10000 10001 (wrappedCall (Responds (JNum 1)))
      ((new_CircuitBreaker ''service-b'' None)\<lparr>state := OPEN, nextAttempt := 31000\<rparr>) 0
     = (Inl (ServiceUnavailableException (Some ''service-b'')),
        (new_CircuitBreaker ''service-b'' None)\<lparr>state := OPEN, nextAttempt := 31000\<rparr>, 0) \<and>
   state (fst (snd (execute 31000 31001 (wrappedCall (Responds (JNum 1)))
      ((new_CircuitBreaker ''service-b'' None)\<lparr>state := OPEN, nextAttempt := 31000\<rparr>) 0)))
     = HALF_OPEN \<and>
   snd (snd (execute 31000 31001 (wrappedCall (Responds (JNum 1)))
      ((new_CircuitBreaker ''service-b'' None)\<lparr>state := OPEN, nextAttempt := 31000\<rparr>) 0)) = 1"
  using
    open_breaker_gate [of "(new_CircuitBreaker ''service-b'' None)
        \<lparr>state := OPEN, nextAttempt := 31000\<rparr>" 10000 10001
      "wrappedCall (Responds (JNum 1))" 0 "''t''" "''/api''" None]
    open_breaker_gate [of "(new_CircuitBreaker ''service-b'' None)
        \<lparr>state := OPEN, nextAttempt := 31000\<rparr>" 31000 31001
      "wrappedCall (Responds (JNum 1))" 0 "''t''" "''/api''" None]
  by (simp add: new_CircuitBreaker_def wrappedCall_def onSuccess_def assignOptions_def
      defaultOptions_def)

subsection \<open>What the breaker counts\<close>

text \<open>
  C1, as the code has it. For a call the breaker admits, every rejection of the HTTP
  client counts as a failure, whatever its kind: \<open>handleError\<close> turns it into a thrown
  exception and \<open>execute\<close> hands every thrown exception to \<open>onFailure\<close>. So a Closed
  breaker's failure count goes up by one for an upstream 404 or 400 exactly as for a
  5xx, a timeout or a refused connection. Only a call that resolves counts as a success.
\<close>

theorem every_rejection_counts:
  "(fst (checkState now b) = None \<longrightarrow>
      execute now now' (wrappedCall (Rejects e)) b u =
        (Inl (handleError e), onFailure now' (handleError e) (snd (checkState now b)), Suc u) \<and>
      execute now now' (wrappedCall (Responds d)) b u =
        (Inr (standardizeResponse d), onSuccess (snd (checkState now b)), Suc u)) \<and>
   (state b = CLOSED \<longrightarrow>
      failureCount (fst (snd (execute now now' (wrappedCall (Rejects e)) b u)))
        = failureCount b + 1 \<and>
      lastError (fst (snd (execute now now' (wrappedCall (Rejects e)) b u)))
        = Some (handleError e) \<and>
      (state (fst (snd (execute now now' (wrappedCall (Rejects e)) b u))) = OPEN
         \<longleftrightarrow> failureCount b + 1 \<ge> failureThreshold (options b)))"
  by (auto simp: execute_def wrappedCall_def checkState_def Let_def onFailure_def trip_def
      split: prod.splits option.splits)

theorem every_rejection_counts_witness:
  "failureCount (fst (snd (execute 1000 1001
      (wrappedCall (Rejects \<lparr>err_code = Some ''ERR_BAD_RESPONSE'',
         err_message = ''Request failed with status code 500'',
         err_response = Some (500, JObj []), err_url = ''http://localhost:8001/items''\<rparr>))
      (new_CircuitBreaker ''service-a'' None) 0))) = 1 \<and>
   fst (execute 1000 1001 (wrappedCall (Responds (JNum 1)))
      (new_CircuitBreaker ''service-a'' None) 0) = Inr (standardizeResponse (JNum 1))"
  using every_rejection_counts [of 1000 "new_CircuitBreaker ''service-a'' None" 1001
      "\<lparr>err_code = Some ''ERR_BAD_RESPONSE'',
         err_message = ''Request failed with status code 500'',
         err_response = Some (500, JObj []), err_url = ''http://localhost:8001/items''\<rparr>" 0
      "JNum 1"]
  by (simp add: new_CircuitBreaker_def checkState_def execute_def wrappedCall_def
      onFailure_def onSuccess_def trip_def assignOptions_def defaultOptions_def Let_def)

text \<open>
  C1 as stated fails: the upstream answers 404 to \<open>GET /items/42\<close>; \<open>handleError\<close>
  throws \<open>ResourceNotFoundException\<close>, a new breaker counts one failure, and a breaker
  that already counts two opens.
\<close>

theorem upstream_404_counterexample:
  "handleError \<lparr>err_code = Some ''ERR_BAD_REQUEST'',
       err_message = ''Request failed with status code 404'',
       err_response = Some (404, JObj [(''message'', JStr ''Not Found'')]),
       err_url = ''http://localhost:8001/items/42?tenantId=t1''\<rparr>
     = ResourceNotFoundException ''item'' ''42'' \<and>
   failureCount (fst (snd (execute 1000 1001
      (wrappedCall (Rejects \<lparr>err_code = Some ''ERR_BAD_REQUEST'',
         err_message = ''Request failed with status code 404'',
         err_response = Some (404, JObj [(''message'', JStr ''Not Found'')]),
         err_url = ''http://localhost:8001/items/42?tenantId=t1''\<rparr>))
      (new_CircuitBreaker ''service-a'' None) 0))) = 1 \<and>
   state (fst (snd (execute 1000 1001
      (wrappedCall (Rejects \<lparr>err_code = Some ''ERR_BAD_REQUEST'',
         err_message = ''Request failed with status code 404'',
         err_response = Some (404, JObj [(''message'', JStr ''Not Found'')]),
         err_url = ''http://localhost:8001/items/42?tenantId=t1''\<rparr>))
      ((new_CircuitBreaker ''service-a'' None)\<lparr>failureCount := 2\<rparr>) 0))) = OPEN"
  by (simp add: handleError_def resourceIdOf_def execute_def wrappedCall_def checkState_def
      onFailure_def trip_def new_CircuitBreaker_def assignOptions_def defaultOptions_def
      Let_def)

subsection \<open>The rate-limit decision\<close>






text \<open>
  C2. Whatever the counters hold and whether or not the store answers, the decision
  \<open>checkRateLimit\<close> returns has \<open>limited\<close> exactly when \<open>current > limit\<close>, and
  \<open>remaining = max(0, limit - current)\<close>, which is never negative. \<open>limit\<close> is the
  resolved rule and \<open>current\<close> is the value \<open>incrementByThrottler\<close> returned.
\<close>

theorem rate_limit_decision:
  "checkRateLimit svc now now' key m res r = (d, r') \<Longrightarrow>
     (limited d \<longleftrightarrow> current d > limit d) \<and>
     remaining d = max 0 (limit d - current d) \<and>
     remaining d \<ge> 0 \<and>
     limit d = fst (resolveRule svc m res) \<and>
     current d = fst (incrementByThrottler
                        (generateKey svc now key m res (snd (resolveRule svc m res)))
                        1 (Some (snd (resolveRule svc m res))) r)"
  by (auto simp: checkRateLimit_def checkRateLimit_try_def Let_def split: prod.splits)

theorem rate_limit_decision_witness:
  "limited (fst (checkRateLimit \<lparr>defaultTtl = 60, defaultLimit = 60\<rparr> 1000 1001 ''u1'' ''POST''
      (Some ''user'') \<lparr>store = (\<lambda>k. Some 5), expiry = Map.empty, faults = []\<rparr>)) \<and>
   current (fst (checkRateLimit \<lparr>defaultTtl = 60, defaultLimit = 60\<rparr> 1000 1001 ''u1'' ''POST''
      (Some ''user'') \<lparr>store = (\<lambda>k. Some 5), expiry = Map.empty, faults = []\<rparr>)) = 6 \<and>
   limit (fst (checkRateLimit \<lparr>defaultTtl = 60, defaultLimit = 60\<rparr> 1000 1001 ''u1'' ''POST''
      (Some ''user'') \<lparr>store = (\<lambda>k. Some 5), expiry = Map.empty, faults = []\<rparr>)) = 5 \<and>
   remaining (fst (checkRateLimit \<lparr>defaultTtl = 60, defaultLimit = 60\<rparr> 1000 1001 ''u1'' ''POST''
      (Some ''user'') \<lparr>store = (\<lambda>k. Some 5), expiry = Map.empty, faults = []\<rparr>)) = 0"
  using rate_limit_decision [of "\<lparr>defaultTtl = 60, defaultLimit = 60\<rparr>" 1000 1001 "''u1''"
      "''POST''" "Some ''user''" "\<lparr>store = (\<lambda>k. Some 5), expiry = Map.empty, faults = []\<rparr>"
      "fst (checkRateLimit \<lparr>defaultTtl = 60, defaultLimit = 60\<rparr> 1000 1001 ''u1'' ''POST''
         (Some ''user'') \<lparr>store = (\<lambda>k. Some 5), expiry = Map.empty, faults = []\<rparr>)"
      "snd (checkRateLimit \<lparr>defaultTtl = 60, defaultLimit = 60\<rparr> 1000 1001 ''u1'' ''POST''
         (Some ''user'') \<lparr>store = (\<lambda>k. Some 5), expiry = Map.empty, faults = []\<rparr>)"]
  by (simp add: resolveRule_def limitMap_def ttlMap_def num_or_def incrementByThrottler_def
      incrBy_def next_fault_def)

subsection \<open>A failing store\<close>



subsection \<open>standardizeResponse\<close>

lemma json_not_wrapped: "d \<noteq> JObj [(a, x), (b, d)]"
proof
  assume "d = JObj [(a, x), (b, d)]"
  then have "size d = size (JObj [(a, x), (b, d)])" by simp
  then show False by simp
qed

text \<open>
  C10. \<open>standardizeResponse\<close> is idempotent. It returns its argument unchanged exactly
  when the argument is a non-null object that has both a \<open>success\<close> and a \<open>data\<close> key,
  and otherwise returns \<open>{success: true, data: d}\<close>.
\<close>

theorem standardizeResponse_idempotent:
  "standardizeResponse (standardizeResponse d) = standardizeResponse d \<and>
   (standardizeResponse d = d \<longleftrightarrow>
      d \<noteq> JNull \<and> typeof_object d \<and> has_key ''success'' d \<and> has_key ''data'' d) \<and>
   (\<not> (d \<noteq> JNull \<and> typeof_object d \<and> has_key ''success'' d \<and> has_key ''data'' d) \<longrightarrow>
      standardizeResponse d = JObj [(''success'', JBool True), (''data'', d)])"
proof (cases "truthy d \<and> typeof_object d \<and> has_key ''success'' d \<and> has_key ''data'' d")
  case True
  have "standardizeResponse d = d"
    unfolding standardizeResponse_def by (rule if_P) (rule True)
  moreover from True have "d \<noteq> JNull" by auto
  ultimately show ?thesis using True by simp
next
  case False
  have w: "standardizeResponse d = JObj [(''success'', JBool True), (''data'', d)]"
    unfolding standardizeResponse_def by (rule if_not_P) (rule False)
  have again: "standardizeResponse (JObj [(''success'', JBool True), (''data'', d)])
                 = JObj [(''success'', JBool True), (''data'', d)]"
    by (simp add: standardizeResponse_def)
  have ne: "standardizeResponse d \<noteq> d"
    using w json_not_wrapped [of d "''success''" "JBool True" "''data''"] by simp
  have nc: "\<not> (d \<noteq> JNull \<and> typeof_object d \<and> has_key ''success'' d \<and> has_key ''data'' d)"
    using False by (cases d) auto
  show ?thesis using w again ne nc by simp
qed

theorem standardizeResponse_idempotent_witness:
  "standardizeResponse (JNum 7) = JObj [(''success'', JBool True), (''data'', JNum 7)] \<and>
   standardizeResponse (standardizeResponse (JNum 7)) = standardizeResponse (JNum 7) \<and>
   standardizeResponse (JObj [(''success'', JBool False), (''data'', JNull)])
     = JObj [(''success'', JBool False), (''data'', JNull)]"
  using standardizeResponse_idempotent [of "JNum 7"]
    standardizeResponse_idempotent [of "JObj [(''success'', JBool False), (''data'', JNull)]"]
  by (simp add: standardizeResponse_def)

subsection \<open>The exception filter's envelope\<close>

lemma getErrorTypeFromStatus_kind: "getErrorTypeFromStatus s \<in> set errorKinds"
  by (simp add: getErrorTypeFromStatus_def errorKinds_def)

lemma getErrorTypeFromStatus_fixed:
  "fixBadRequest (JStr (getErrorTypeFromStatus s)) = JStr (getErrorTypeFromStatus s)"
  by (simp add: getErrorTypeFromStatus_def fixBadRequest_def)

lemma fixBadRequest_idem: "fixBadRequest (fixBadRequest k) = fixBadRequest k"
  by (simp add: fixBadRequest_def)

lemma fixBadRequest_unless:
  "m \<noteq> Some (JStr ''Bad Request'') \<Longrightarrow> map_option fixBadRequest m = m"
  by (cases m) (auto simp: fixBadRequest_def)

lemma fixBadRequest_lit: "fixBadRequest (JStr ''Bad Request'') = JStr ''BadRequest''"
  by (simp add: fixBadRequest_def)

lemma catch_filter_fields:
  assumes "catch_filter x ts url rid = Some (status, body)"
  shows "\<exists>e0. selectResponse x ts url = Some (status, e0) \<and>
           map_of body ''error'' =
             (if status = 413 then Some (JStr ''PayloadTooLarge'')
              else map_option fixBadRequest (map_of e0 ''error'')) \<and>
           map_of body ''errorCode'' =
             (if status = 413 then Some (JStr ''ERR_PAYLOAD_TOO_LARGE'')
              else map_of e0 ''errorCode'') \<and>
           map_of body ''success'' = (if status = 413 then None else map_of e0 ''success'')"
  using assms
  by (auto simp: catch_filter_def Let_def update_conv' fixBadRequest_unless fixBadRequest_lit
      split: option.splits if_splits)

lemma select_base:
  "selectResponse (BaseException et m s c v) ts url = Some (st, e0) \<Longrightarrow>
     st = s \<and> map_of e0 ''error'' = Some (JStr et) \<and> map_of e0 ''success'' = None"
  by (auto simp: selectResponse_def stamp_def update_conv' baseResponse_def
      split: option.splits)

lemma select_http:
  "selectResponse (HttpException p s) ts url = Some (st, e0) \<Longrightarrow>
     st = s \<and> map_of e0 ''success'' = None \<and>
     map_of e0 ''error'' =
       Some (fixBadRequest (js_or (get_prop p ''error'') (JStr (getErrorTypeFromStatus s))))"
  by (cases p)
     (auto simp: selectResponse_def Let_def update_conv' js_or_def getErrorTypeFromStatus_fixed
      split: if_splits)

lemma select_thrown:
  "selectResponse (Thrown v) ts url = Some (st, e0) \<Longrightarrow>
     st = 500 \<and> map_of e0 ''success'' = None \<and> map_of e0 ''errorCode'' = None \<and>
     map_of e0 ''error'' = Some (JStr ''InternalServerError'')"
  by (auto simp: selectResponse_def)


lemma kind_fixed: "k \<in> filterKinds \<Longrightarrow> fixBadRequest k = k"
  by (auto simp: filterKinds_def errorKinds_def fixBadRequest_def)

lemma status_kind: "JStr (getErrorTypeFromStatus s) \<in> filterKinds"
  using getErrorTypeFromStatus_kind [of s] by (simp add: filterKinds_def)

lemma named_kinds:
  "JStr ''GatewayTimeout'' \<in> filterKinds" "JStr ''ServiceUnavailable'' \<in> filterKinds"
  "JStr ''UnexpectedError'' \<in> filterKinds" "JStr ''InternalServerError'' \<in> filterKinds"
  "JStr ''PayloadTooLarge'' \<in> filterKinds"
  by (simp_all add: filterKinds_def errorKinds_def)

lemma select_error:
  assumes "selectResponse (Error e) ts url = Some (st, e0)"
  shows "\<exists>k. map_of e0 ''error'' = Some k \<and>
           (k \<in> filterKinds \<or> truthy (ownKind (Error e)) \<and> k = fixBadRequest (ownKind (Error e))) \<and>
           (map_of e0 ''success'' \<noteq> None \<longrightarrow>
              (\<exists>s fs. err_response e = Some (s, JObj fs) \<and> map_of fs ''success'' \<noteq> None))"
proof (cases "err_code e = Some ''ETIMEDOUT'' \<or> err_code e = Some ''ECONNABORTED'' \<or>
             (err_message e \<noteq> [] \<and>
                (str_includes (err_message e) ''timeout'' \<or>
                 str_includes (err_message e) ''Timeout''))")
  case True
  with assms have "e0 = [(''error'', JStr ''GatewayTimeout''),
                   (''message'',
                    JStr ''The server did not receive a timely response from an upstream server.''),
                   (''errorCode'', JStr ''ERR_GATEWAY_TIMEOUT''),
                   (''timestamp'', JStr ts), (''path'', JStr url)]"
    by (simp add: selectResponse_def)
  then show ?thesis by (simp add: named_kinds)
next
  case notimeout: False
  show ?thesis
  proof (cases "err_code e = Some ''ECONNREFUSED'' \<or> err_code e = Some ''ENOTFOUND'' \<or>
             (err_message e \<noteq> [] \<and> str_includes (err_message e) ''connect'')")
    case True
    with assms notimeout have "e0 = [(''error'', JStr ''ServiceUnavailable''),
                   (''message'',
                    JStr ''The service is currently unavailable. Please try again later.''),
                   (''errorCode'', JStr ''ERR_SERVICE_UNAVAILABLE''),
                   (''timestamp'', JStr ts), (''path'', JStr url)]"
      by (simp add: selectResponse_def)
    then show ?thesis by (simp add: named_kinds)
  next
    case noconn: False
    show ?thesis
    proof (cases "err_response e")
      case None
      with assms notimeout noconn have "e0 = [(''error'', JStr ''UnexpectedError''),
                    (''message'', JStr (err_message e)),
                    (''timestamp'', JStr ts), (''path'', JStr url)]"
        by (simp add: selectResponse_def)
      then show ?thesis by (simp add: named_kinds)
    next
      case (Some sd)
      obtain s d where sd: "sd = (s, d)" by (cases sd)
      show ?thesis
        using assms notimeout noconn Some sd
        by (cases d)
           (auto simp: selectResponse_def Let_def named_kinds status_kind stamp_def update_conv'
              fixBadRequest_def
            split: if_splits option.splits)
    qed
  qed
qed

text \<open>
  C3, as the code has it. Every response the filter produces carries an error kind. The
  kind is one the filter writes by itself (a kind of the taxonomy, or \<open>UnexpectedError\<close>)
  whenever the exception brings no kind of its own; otherwise it is such a kind or the
  exception's own kind passed through, \<open>Bad Request\<close> rewritten to \<open>BadRequest\<close>. A
  response with status 413 is always \<open>PayloadTooLarge\<close> with \<open>ERR_PAYLOAD_TOO_LARGE\<close>. An
  error code is not always there: a thrown value that is neither an \<open>HttpException\<close>
  nor an \<open>Error\<close> gets status 500, kind \<open>InternalServerError\<close> and no code. The filter
  adds no \<open>success\<close> field: a response has one only when the upstream error body that is
  passed through has one.
\<close>

theorem filter_error_kind:
  assumes "catch_filter x ts url rid = Some (status, body)"
  shows "(\<exists>k. map_of body ''error'' = Some k \<and>
            (k \<in> filterKinds \<or> k = fixBadRequest (ownKind x)) \<and>
            (\<not> isBase x \<and> \<not> truthy (ownKind x) \<longrightarrow> k \<in> filterKinds)) \<and>
         (status = 413 \<longrightarrow>
            map_of body ''error'' = Some (JStr ''PayloadTooLarge'') \<and>
            map_of body ''errorCode'' = Some (JStr ''ERR_PAYLOAD_TOO_LARGE'')) \<and>
         ((\<exists>v. x = Thrown v) \<longrightarrow>
            status = 500 \<and> map_of body ''error'' = Some (JStr ''InternalServerError'') \<and>
            map_of body ''errorCode'' = None) \<and>
         (map_of body ''success'' \<noteq> None \<longrightarrow>
            (\<exists>e s fs. x = Error e \<and> err_response e = Some (s, JObj fs) \<and>
               map_of fs ''success'' \<noteq> None))"
proof -
  from catch_filter_fields [OF assms] obtain e0 where
    sel: "selectResponse x ts url = Some (status, e0)" and
    err: "map_of body ''error'' =
             (if status = 413 then Some (JStr ''PayloadTooLarge'')
              else map_option fixBadRequest (map_of e0 ''error''))" and
    code: "map_of body ''errorCode'' =
             (if status = 413 then Some (JStr ''ERR_PAYLOAD_TOO_LARGE'')
              else map_of e0 ''errorCode'')" and
    suc: "map_of body ''success'' = (if status = 413 then None else map_of e0 ''success'')"
    by blast
  show ?thesis
  proof (cases x)
    case (BaseException et m s c v)
    with sel select_base [of et m s c v ts url status e0] err code suc show ?thesis
      by (auto simp: named_kinds)
  next
    case (HttpException p s)
    with sel select_http [of p s ts url status e0] err code suc show ?thesis
      by (auto simp: named_kinds js_or_def status_kind getErrorTypeFromStatus_fixed
          fixBadRequest_idem)
  next
    case (Error e)
    with sel select_error [of e ts url status e0] err code suc show ?thesis
      by (auto simp: named_kinds kind_fixed fixBadRequest_idem)
  next
    case (Thrown v)
    with sel select_thrown [of v ts url status e0] err code suc show ?thesis
      by (auto simp: named_kinds fixBadRequest_def)
  qed
qed

theorem filter_error_kind_witness:
  "catch_filter (HttpException (JStr ''No access'') 403) ''2024-01-01T00:00:00.000Z''
      ''/api/service-a/items'' None
     = Some (403,
        [(''error'', JStr ''Forbidden''), (''message'', JStr ''No access''),
         (''timestamp'', JStr ''2024-01-01T00:00:00.000Z''),
         (''path'', JStr ''/api/service-a/items'')]) \<and>
   JStr ''Forbidden'' \<in> filterKinds"
  using filter_error_kind [of "HttpException (JStr ''No access'') 403"
      "''2024-01-01T00:00:00.000Z''" "''/api/service-a/items''" None 403
      "[(''error'', JStr ''Forbidden''), (''message'', JStr ''No access''),
        (''timestamp'', JStr ''2024-01-01T00:00:00.000Z''),
        (''path'', JStr ''/api/service-a/items'')]"]
  by (simp add: catch_filter_def selectResponse_def getErrorTypeFromStatus_def js_or_def
      filterKinds_def errorKinds_def)

text \<open>
  C3 as stated fails. A plain \<open>Error('boom')\<close> is answered with status 500, the kind
  \<open>UnexpectedError\<close>, which is not in the taxonomy, and no error code. An \<open>Error\<close> that
  carries the upstream's body \<open>{error, message, success: true}\<close> with status 502 is
  answered with that body, \<open>success: true\<close> included.
\<close>

theorem plain_error_counterexample:
  "catch_filter
      (Error \<lparr>err_code = None, err_message = ''boom'', err_response = None, err_url = []\<rparr>)
      ''2024-01-01T00:00:00.000Z'' ''/api/service-a/items'' None
     = Some (500,
        [(''error'', JStr ''UnexpectedError''), (''message'', JStr ''boom''),
         (''timestamp'', JStr ''2024-01-01T00:00:00.000Z''),
         (''path'', JStr ''/api/service-a/items'')]) \<and>
   ''UnexpectedError'' \<notin> set errorKinds \<and>
   catch_filter
      (Error \<lparr>err_code = None, err_message = ''Request failed with status code 502'',
         err_response = Some (502, JObj [(''error'', JStr ''Upstream''),
           (''message'', JStr ''bad gateway''), (''success'', JBool True)]),
         err_url = []\<rparr>)
      ''2024-01-01T00:00:00.000Z'' ''/api/service-a/items'' None
     = Some (502,
        [(''error'', JStr ''Upstream''), (''message'', JStr ''bad gateway''),
         (''success'', JBool True),
         (''timestamp'', JStr ''2024-01-01T00:00:00.000Z''),
         (''path'', JStr ''/api/service-a/items'')])"
  by (simp add: catch_filter_def selectResponse_def errorKinds_def stamp_def)

subsection \<open>The response to a throttled request\<close>

lemma filter_tooManyRequests:
  "\<exists>body. catch_filter (tooManyRequests msg) ts url rid = Some (429, body) \<and>
      map_of body ''error'' = Some (JStr ''Too Many Requests'') \<and>
      map_of body ''errorCode'' = None"
  by (auto simp: catch_filter_def selectResponse_def tooManyRequests_def Let_def js_or_def
      fixBadRequest_def update_conv' split: option.splits)

text \<open>
  C7, as the code has it. Whenever \<open>canActivate\<close> blocks a request (by the regular or
  by the tenant check), the exception is an \<open>HttpException\<close> with status 429 whose
  payload names the error \<open>Too Many Requests\<close>; the filter answers 429 with that very
  kind and without an error code.
\<close>

theorem throttled_response:
  "fst (canActivate svc now now' req r) = Inl e \<Longrightarrow>
     getStatus e = Some TOO_MANY_REQUESTS \<and>
     (\<exists>body. catch_filter e ts url rid = Some (429, body) \<and>
        map_of body ''error'' = Some (JStr ''Too Many Requests'') \<and>
        map_of body ''errorCode'' = None)"
  using filter_tooManyRequests [of "''Too many requests, please try again later.''" ts url rid]
    filter_tooManyRequests [of "''Tenant rate limit exceeded, please try again later.''" ts url rid]
  by (auto simp: canActivate_def regularCheck_def Let_def tooManyRequests_def
      split: if_splits prod.splits option.splits)

theorem throttled_response_witness:
  "fst (canActivate \<lparr>defaultTtl = 60, defaultLimit = 60\<rparr> 1000 1001
      \<lparr>isPublic = False, skipThrottle = False, path = ''/api/service-a/items'',
       httpMethod = ''POST'', resource = Some ''item'', ident = ''10.0.0.1'', tenantName = None,
       tenantId = None, enableTenantRateLimits = False\<rparr>
      \<lparr>store = (\<lambda>k. Some 60), expiry = Map.empty, faults = []\<rparr>)
     = Inl (tooManyRequests ''Too many requests, please try again later.'') \<and>
   catch_filter (tooManyRequests ''Too many requests, please try again later.'')
      ''2024-01-01T00:00:00.000Z'' ''/api/service-a/items'' None
     = Some (429,
        [(''error'', JStr ''Too Many Requests''),
         (''message'', JStr ''Too many requests, please try again later.''),
         (''timestamp'', JStr ''2024-01-01T00:00:00.000Z''),
         (''path'', JStr ''/api/service-a/items'')])"
  using throttled_response [of "\<lparr>defaultTtl = 60, defaultLimit = 60\<rparr>" 1000 1001
      "\<lparr>isPublic = False, skipThrottle = False, path = ''/api/service-a/items'',
       httpMethod = ''POST'', resource = Some ''item'', ident = ''10.0.0.1'', tenantName = None,
       tenantId = None, enableTenantRateLimits = False\<rparr>"
      "\<lparr>store = (\<lambda>k. Some 60), expiry = Map.empty, faults = []\<rparr>"
      "tooManyRequests ''Too many requests, please try again later.''"
      "''2024-01-01T00:00:00.000Z''" "''/api/service-a/items''" None]
  by (simp add: canActivate_def regularCheck_def checkRateLimit_def checkRateLimit_try_def
      resolveRule_def methodRule_def limitMap_def incrementByThrottler_def incrBy_def
      next_fault_def Let_def catch_filter_def selectResponse_def tooManyRequests_def
      js_or_def fixBadRequest_def)

subsection \<open>Oversized uploads\<close>

lemma filter_FileTooLarge:
  "\<exists>body. catch_filter FileTooLargeException ts url rid = Some (413, body) \<and>
      map_of body ''error'' = Some (JStr ''PayloadTooLarge'') \<and>
      map_of body ''errorCode'' = Some (JStr ''ERR_PAYLOAD_TOO_LARGE'')"
  by (auto simp: catch_filter_def selectResponse_def FileTooLargeException_def Let_def
      update_conv' split: option.splits)

text \<open>
  C9, as the code has it. An upload of 10 MiB or more, and an upload with no file, is
  rejected with \<open>FileTooLargeException\<close>; an upload below 10 MiB is passed on exactly
  when its mimetype matches the pattern, and is rejected with the same exception when
  it does not. The exception carries the code \<open>ERR_FILE_TOO_LARGE\<close>, but the filter
  answers it with status 413, kind \<open>PayloadTooLarge\<close> and the code
  \<open>ERR_PAYLOAD_TOO_LARGE\<close>: its special case for 413 writes the body anew.
\<close>

theorem upload_size_check:
  "(file_size file \<ge> 10485760 \<longrightarrow> uploadFile_pipe (Some file) = Inl FileTooLargeException) \<and>
   (file_size file < 10485760 \<longrightarrow>
      (uploadFile_pipe (Some file) = Inr file
         \<longleftrightarrow> matchesFileType allowedTypes (mimetype file)) \<and>
      (\<not> matchesFileType allowedTypes (mimetype file) \<longrightarrow>
         uploadFile_pipe (Some file) = Inl FileTooLargeException)) \<and>
   uploadFile_pipe None = Inl FileTooLargeException \<and>
   FileTooLargeException =
     BaseException ''FileTooLarge'' ''File size exceeds the limit.'' PAYLOAD_TOO_LARGE
       (Some ''ERR_FILE_TOO_LARGE'') None \<and>
   (\<exists>body. catch_filter FileTooLargeException ts url rid = Some (413, body) \<and>
      map_of body ''error'' = Some (JStr ''PayloadTooLarge'') \<and>
      map_of body ''errorCode'' = Some (JStr ''ERR_PAYLOAD_TOO_LARGE''))"
  using filter_FileTooLarge [of ts url rid]
  by (auto simp: uploadFile_pipe_def ParseFilePipe_def maxSize_def MaxFileSizeValidator_def
      FileTypeValidator_def FileTooLargeException_def)

text \<open>
  An upload of 10 MiB plus one byte and one of exactly 10 MiB are rejected, one of 10 MiB
  less one byte is passed on, and the envelope of the rejection carries
  \<open>ERR_PAYLOAD_TOO_LARGE\<close>.
\<close>

theorem upload_size_check_witness:
  "uploadFile_pipe
      (Some \<lparr>originalname = ''big.pdf'', mimetype = ''application/pdf'', file_size = 10485761\<rparr>)
     = Inl FileTooLargeException \<and>
   uploadFile_pipe
      (Some \<lparr>originalname = ''at.pdf'', mimetype = ''application/pdf'', file_size = 10485760\<rparr>)
     = Inl FileTooLargeException \<and>
   uploadFile_pipe
      (Some \<lparr>originalname = ''ok.pdf'', mimetype = ''application/PDF'', file_size = 10485759\<rparr>)
     = Inr \<lparr>originalname = ''ok.pdf'', mimetype = ''application/PDF'', file_size = 10485759\<rparr> \<and>
   catch_filter FileTooLargeException ''2024-01-01T00:00:00.000Z'' ''/api/service-c/files'' None
     = Some (413,
        [(''error'', JStr ''PayloadTooLarge''),
         (''message'', JStr ''File size exceeds the limit.''),
         (''errorCode'', JStr ''ERR_PAYLOAD_TOO_LARGE''),
         (''timestamp'', JStr ''2024-01-01T00:00:00.000Z''),
         (''path'', JStr ''/api/service-c/files'')])"
proof -
  let ?big = "\<lparr>originalname = ''big.pdf'', mimetype = ''application/pdf'', file_size = 10485761\<rparr>"
  let ?at = "\<lparr>originalname = ''at.pdf'', mimetype = ''application/pdf'', file_size = 10485760\<rparr>"
  let ?ok = "\<lparr>originalname = ''ok.pdf'', mimetype = ''application/PDF'', file_size = 10485759\<rparr>"
  have ty: "matchesFileType allowedTypes (mimetype ?ok)"
    by (simp add: matchesFileType_def allowedTypes_def lower_def)
  have sb: "file_size ?big \<ge> 10485760" by simp
  have sa: "file_size ?at \<ge> 10485760" by simp
  have so: "file_size ?ok < 10485760" by simp
  from sb upload_size_check [of ?big "''t''" "''/api''" None]
  have a: "uploadFile_pipe (Some ?big) = Inl FileTooLargeException" by blast
  from sa upload_size_check [of ?at "''t''" "''/api''" None]
  have b: "uploadFile_pipe (Some ?at) = Inl FileTooLargeException" by blast
  from so ty upload_size_check [of ?ok "''t''" "''/api''" None]
  have c: "uploadFile_pipe (Some ?ok) = Inr ?ok" by blast
  have d: "catch_filter FileTooLargeException ''2024-01-01T00:00:00.000Z''
      ''/api/service-c/files'' None
     = Some (413,
        [(''error'', JStr ''PayloadTooLarge''),
         (''message'', JStr ''File size exceeds the limit.''),
         (''errorCode'', JStr ''ERR_PAYLOAD_TOO_LARGE''),
         (''timestamp'', JStr ''2024-01-01T00:00:00.000Z''),
         (''path'', JStr ''/api/service-c/files'')])"
    by (simp add: catch_filter_def selectResponse_def FileTooLargeException_def)
  from a b c d show ?thesis by simp
qed

subsection \<open>Bearer-token authentication\<close>

lemma map_of_spread_into: "map_of (spread_into b s) = map_of b ++ map_of s"
proof (induction s)
  case Nil
  show ?case by (simp add: spread_into_def)
next
  case (Cons p s)
  obtain k v where p: "p = (k, v)" by (cases p)
  have "map_of (spread_into b (p # s)) = (map_of (spread_into b s))(k \<mapsto> v)"
    by (simp add: spread_into_def p update_conv')
  also have "\<dots> = (map_of b ++ map_of s)(k \<mapsto> v)"
    by (simp add: Cons.IH)
  also have "\<dots> = map_of b ++ map_of (p # s)"
    by (simp add: p)
  finally show ?case .
qed

lemma member_of_defined:
  "a \<noteq> JNull \<Longrightarrow> a \<noteq> JUndefined \<Longrightarrow> member_of a k = Some (get_prop a k)"
  by (cases a) auto

lemma member_of_get_prop: "member_of a k = Some v \<Longrightarrow> v = get_prop a k"
  by (cases a) auto

lemma find_access_no_match:
  "\<forall>a\<in>set xs. get_prop a ''tenantId'' \<noteq> JStr t \<Longrightarrow>
     find_access xs t = None \<or> find_access xs t = Some None"
  by (induction xs) (auto split: option.splits dest: member_of_get_prop)

lemma find_access_find:
  "\<forall>a\<in>set xs. a \<noteq> JNull \<and> a \<noteq> JUndefined \<Longrightarrow>
     find_access xs t = Some (List.find (\<lambda>a. get_prop a ''tenantId'' = JStr t) xs)"
  by (induction xs) (auto simp: member_of_defined)

lemma filter_Unauthorized:
  "\<exists>body. catch_filter (UnauthorizedException msg) ts url rid = Some (401, body) \<and>
      map_of body ''error'' = Some (JStr ''Unauthorized'')"
  by (auto simp: catch_filter_def selectResponse_def UnauthorizedException_def Let_def js_or_def
      fixBadRequest_def update_conv' split: option.splits)

lemma jwt_rejects_unauthorized:
  "fst (jwt_canActivate rq outcome) = Inl e \<Longrightarrow> \<exists>msg. e = UnauthorizedException msg"
  by (auto simp: jwt_canActivate_def split: if_splits option.splits sum.splits)

lemma authenticate_no_match:
  assumes "\<forall>xs. get_prop userData ''userAccess'' = JArr xs \<longrightarrow>
             (\<forall>a\<in>set xs. get_prop a ''tenantId'' \<noteq> JStr t)"
  shows "\<exists>e. authenticate rq t userData = Inl e"
proof (cases "get_prop userData ''userAccess''")
  case (JArr xs)
  with assms have "find_access xs t = None \<or> find_access xs t = Some None"
    by (simp add: find_access_no_match)
  with JArr show ?thesis by (auto simp: authenticate_def)
qed (simp_all add: authenticate_def)

lemma authenticate_match:
  assumes "get_prop userData ''userAccess'' = JArr xs"
    and "\<forall>a\<in>set xs. a \<noteq> JNull \<and> a \<noteq> JUndefined"
    and "List.find (\<lambda>a. get_prop a ''tenantId'' = JStr t) xs = Some a"
  shows "\<exists>user. authenticate rq t userData = Inr user \<and>
           get_prop user ''roles'' =
             (if get_prop a ''type'' = JStr ''ADMIN'' then JArr [JStr ''admin'']
              else JArr [JStr ''user''])"
proof -
  from assms(1) obtain fs where ud: "userData = JObj fs" by (cases userData) auto
  from assms(2,3) have "find_access xs t = Some (Some a)"
    by (simp add: find_access_find)
  with assms(1) ud show ?thesis
    by (simp add: authenticate_def Let_def map_of_spread_into update_conv')
qed

text \<open>
  C8. In bearer-token mode (the route is not public, the path is not a health path, no
  earlier guard has set a user, and the \<open>authorization\<close> header is there): a request
  without the tenant header is rejected with \<open>UnauthorizedException\<close>; a validated token
  whose \<open>userAccess\<close> has no entry for the requested tenant is rejected with
  \<open>UnauthorizedException\<close>; when the entries are objects and \<open>a\<close> is the first one for
  the requested tenant, the request is accepted and the user's roles are \<open>['admin']\<close> if
  \<open>a.type\<close> is \<open>'ADMIN'\<close> and \<open>['user']\<close> otherwise; and whatever the guard throws
  has status 401 and is answered with the kind \<open>Unauthorized\<close>, never 403.
\<close>

theorem bearer_mode:
  assumes "\<not> route_public rq" and "req_path rq \<noteq> ''/health''"
    and "req_path rq \<noteq> ''/api/health''" and "req_user rq = JUndefined"
    and "str_truthy (authorization rq)"
  shows "(\<not> str_truthy (tenantid rq) \<longrightarrow>
            fst (jwt_canActivate rq outcome) = Inl (UnauthorizedException ''Missing tenant ID header'')) \<and>
         (tenantid rq = Some t \<and> t \<noteq> [] \<and> validateToken outcome = Inr userData \<and>
          (\<forall>xs. get_prop userData ''userAccess'' = JArr xs \<longrightarrow>
                  (\<forall>a\<in>set xs. get_prop a ''tenantId'' \<noteq> JStr t)) \<longrightarrow>
            fst (jwt_canActivate rq outcome) = Inl (UnauthorizedException ''Invalid token'')) \<and>
         (tenantid rq = Some t \<and> t \<noteq> [] \<and> validateToken outcome = Inr userData \<and>
          get_prop userData ''userAccess'' = JArr xs \<and>
          (\<forall>a\<in>set xs. a \<noteq> JNull \<and> a \<noteq> JUndefined) \<and>
          List.find (\<lambda>a. get_prop a ''tenantId'' = JStr t) xs = Some a \<longrightarrow>
            fst (jwt_canActivate rq outcome) = Inr True \<and>
            get_prop (snd (jwt_canActivate rq outcome)) ''roles'' =
              (if get_prop a ''type'' = JStr ''ADMIN'' then JArr [JStr ''admin'']
               else JArr [JStr ''user''])) \<and>
         (\<forall>e. fst (jwt_canActivate rq outcome) = Inl e \<longrightarrow>
            getStatus e = Some UNAUTHORIZED \<and>
            (\<exists>body. catch_filter e ts url rid = Some (401, body) \<and>
               map_of body ''error'' = Some (JStr ''Unauthorized'')))"
proof (intro conjI impI allI)
  assume "\<not> str_truthy (tenantid rq)"
  with assms show "fst (jwt_canActivate rq outcome)
      = Inl (UnauthorizedException ''Missing tenant ID header'')"
    by (auto simp: jwt_canActivate_def str_truthy_def split: option.splits)
next
  assume h: "tenantid rq = Some t \<and> t \<noteq> [] \<and> validateToken outcome = Inr userData \<and>
          (\<forall>xs. get_prop userData ''userAccess'' = JArr xs \<longrightarrow>
                  (\<forall>a\<in>set xs. get_prop a ''tenantId'' \<noteq> JStr t))"
  then obtain e where "authenticate rq t userData = Inl e"
    using authenticate_no_match [of userData t rq] by blast
  with h assms show "fst (jwt_canActivate rq outcome) = Inl (UnauthorizedException ''Invalid token'')"
    by (simp add: jwt_canActivate_def)
next
  assume h: "tenantid rq = Some t \<and> t \<noteq> [] \<and> validateToken outcome = Inr userData \<and>
          get_prop userData ''userAccess'' = JArr xs \<and>
          (\<forall>a\<in>set xs. a \<noteq> JNull \<and> a \<noteq> JUndefined) \<and>
          List.find (\<lambda>a. get_prop a ''tenantId'' = JStr t) xs = Some a"
  then obtain user where u: "authenticate rq t userData = Inr user"
    "get_prop user ''roles'' =
             (if get_prop a ''type'' = JStr ''ADMIN'' then JArr [JStr ''admin'']
              else JArr [JStr ''user''])"
    using authenticate_match [of userData xs t a rq] by blast
  from h assms u(1) have r: "jwt_canActivate rq outcome = (Inr True, user)"
    by (simp add: jwt_canActivate_def)
  from r show "fst (jwt_canActivate rq outcome) = Inr True" by simp
  from r u(2) show "get_prop (snd (jwt_canActivate rq outcome)) ''roles'' =
              (if get_prop a ''type'' = JStr ''ADMIN'' then JArr [JStr ''admin'']
               else JArr [JStr ''user''])" by simp
next
  fix e assume "fst (jwt_canActivate rq outcome) = Inl e"
  then obtain msg where e: "e = UnauthorizedException msg"
    using jwt_rejects_unauthorized by blast
  then show "getStatus e = Some UNAUTHORIZED" by (simp add: UnauthorizedException_def)
  from e filter_Unauthorized [of msg ts url rid]
  show "\<exists>body. catch_filter e ts url rid = Some (401, body) \<and>
               map_of body ''error'' = Some (JStr ''Unauthorized'')" by simp
qed


theorem bearer_mode_witness:
  "fst (jwt_canActivate
      \<lparr>route_public = False, req_path = ''/api/service-a/items'', req_user = JUndefined,
       authorization = Some ''Bearer abc'', tenantid = Some ''t1'',
       params_tenantName = JUndefined, body_tenantName = JUndefined,
       query_tenantName = JUndefined\<rparr>
      (Responds (JObj [(''userId'', JStr ''u1''),
         (''userAccess'', JArr [JObj [(''tenantId'', JStr ''t1''), (''type'', JStr ''ADMIN'')]])])))
     = Inr True \<and>
   get_prop (snd (jwt_canActivate
      \<lparr>route_public = False, req_path = ''/api/service-a/items'', req_user = JUndefined,
       authorization = Some ''Bearer abc'', tenantid = Some ''t1'',
       params_tenantName = JUndefined, body_tenantName = JUndefined,
       query_tenantName = JUndefined\<rparr>
      (Responds (JObj [(''userId'', JStr ''u1''),
         (''userAccess'', JArr [JObj [(''tenantId'', JStr ''t1''), (''type'', JStr ''ADMIN'')]])]))))
      ''roles'' = JArr [JStr ''admin''] \<and>
   fst (jwt_canActivate
      \<lparr>route_public = False, req_path = ''/api/service-a/items'', req_user = JUndefined,
       authorization = Some ''Bearer abc'', tenantid = None,
       params_tenantName = JUndefined, body_tenantName = JUndefined,
       query_tenantName = JUndefined\<rparr>
      (Responds (JObj [(''userId'', JStr ''u1''),
         (''userAccess'', JArr [JObj [(''tenantId'', JStr ''t1''), (''type'', JStr ''ADMIN'')]])])))
     = Inl (UnauthorizedException ''Missing tenant ID header'') \<and>
   fst (jwt_canActivate
      \<lparr>route_public = False, req_path = ''/api/service-a/items'', req_user = JUndefined,
       authorization = Some ''Bearer abc'', tenantid = Some ''t2'',
       params_tenantName = JUndefined, body_tenantName = JUndefined,
       query_tenantName = JUndefined\<rparr>
      (Responds (JObj [(''userId'', JStr ''u1''),
         (''userAccess'', JArr [JObj [(''tenantId'', JStr ''t1''), (''type'', JStr ''ADMIN'')]])])))
     = Inl (UnauthorizedException ''Invalid token'')"
proof -
  let ?rq = "\<lambda>tid. \<lparr>route_public = False, req_path = ''/api/service-a/items'',
       req_user = JUndefined, authorization = Some ''Bearer abc'', tenantid = tid,
       params_tenantName = JUndefined, body_tenantName = JUndefined,
       query_tenantName = JUndefined\<rparr>"
  let ?entry = "JObj [(''tenantId'', JStr ''t1''), (''type'', JStr ''ADMIN'')]"
  let ?out = "Responds (JObj [(''userId'', JStr ''u1''), (''userAccess'', JArr [?entry])])"
  let ?ud = "JObj [(''userId'', JStr ''u1''), (''userAccess'', JArr [?entry]),
                   (''roles'', JArr [])]"
  have v: "validateToken ?out = Inr ?ud"
    by (simp add: validateToken_def js_or_def)
  have ua: "get_prop ?ud ''userAccess'' = JArr [?entry]" by simp
  have nn: "\<forall>a\<in>set [?entry]. a \<noteq> JNull \<and> a \<noteq> JUndefined" by simp
  have f: "List.find (\<lambda>a. get_prop a ''tenantId'' = JStr ''t1'') [?entry] = Some ?entry"
    by simp
  have nm: "\<forall>xs. get_prop ?ud ''userAccess'' = JArr xs \<longrightarrow>
              (\<forall>a\<in>set xs. get_prop a ''tenantId'' \<noteq> JStr ''t2'')"
    by simp
  have ty: "get_prop ?entry ''type'' = JStr ''ADMIN''" by simp
  have p: "\<not> route_public (?rq tid)" "req_path (?rq tid) \<noteq> ''/health''"
    "req_path (?rq tid) \<noteq> ''/api/health''" "req_user (?rq tid) = JUndefined"
    "str_truthy (authorization (?rq tid))" for tid
    by (simp_all add: str_truthy_def)
  have t1: "tenantid (?rq (Some ''t1'')) = Some ''t1'' \<and> ''t1'' \<noteq> []" by simp
  have t2: "tenantid (?rq (Some ''t2'')) = Some ''t2'' \<and> ''t2'' \<noteq> []" by simp
  have t0: "\<not> str_truthy (tenantid (?rq None))" by (simp add: str_truthy_def)
  from bearer_mode [OF p, where outcome = ?out and t = "''t1''" and userData = ?ud
      and xs = "[?entry]" and a = ?entry and ts = "''t''" and url = "''/api''" and rid = None
      and tid1 = "Some ''t1''"]
    v ua nn f t1 ty
  have a: "fst (jwt_canActivate (?rq (Some ''t1'')) ?out) = Inr True \<and>
           get_prop (snd (jwt_canActivate (?rq (Some ''t1'')) ?out)) ''roles''
             = JArr [JStr ''admin'']"
    by presburger
  from bearer_mode [OF p, where outcome = ?out and t = "''t1''" and userData = ?ud
      and xs = "[?entry]" and a = ?entry and ts = "''t''" and url = "''/api''" and rid = None
      and tid1 = None] t0
  have b: "fst (jwt_canActivate (?rq None) ?out)
             = Inl (UnauthorizedException ''Missing tenant ID header'')"
    by blast
  from bearer_mode [OF p, where outcome = ?out and t = "''t2''" and userData = ?ud
      and xs = "[?entry]" and a = ?entry and ts = "''t''" and url = "''/api''" and rid = None
      and tid1 = "Some ''t2''"] v nm t2
  have c: "fst (jwt_canActivate (?rq (Some ''t2'')) ?out)
             = Inl (UnauthorizedException ''Invalid token'')"
    by blast
  from a b c show ?thesis by simp
qed

end
